theory Spec2Isabelle
  imports Complex_Main
begin

section \<open>JavaScript values shared by both fetchers\<close>

text \<open>
  A JavaScript string that may be \<^verbatim>\<open>undefined\<close> or \<^verbatim>\<open>null\<close> is a
  \<open>string option\<close>. \<open>truthy\<close> is the test JavaScript applies in \<^verbatim>\<open>if (s)\<close>,
  \<^verbatim>\<open>!s\<close> and \<^verbatim>\<open>s || d\<close>: the empty string is falsy, like the missing one.
\<close>

definition truthy :: "string option \<Rightarrow> bool" where
  "truthy s = (case s of None \<Rightarrow> False | Some v \<Rightarrow> v \<noteq> [])"

text \<open>\<^verbatim>\<open>s || d\<close> for a possibly missing string \<open>s\<close> and a string \<open>d\<close>.\<close>

definition js_or :: "string option \<Rightarrow> string \<Rightarrow> string" where
  "js_or s d = (case s of None \<Rightarrow> d | Some v \<Rightarrow> if v \<noteq> [] then v else d)"

text \<open>
  The errors the fetchers throw. \<^verbatim>\<open>CustomError\<close> and \<^verbatim>\<open>MissingParamError\<close> come from
  \<^verbatim>\<open>common/utils.js\<close>; the second argument of \<^verbatim>\<open>CustomError\<close> is one of its two
  constants or the response's status text. \<open>TypeError\<close> is what the engine throws when a
  property of \<^verbatim>\<open>undefined\<close> or \<^verbatim>\<open>null\<close> is read.
\<close>

datatype error_type = USER_NOT_FOUND | GRAPHQL_ERROR | StatusText string

datatype error =
    MissingParamError "string list"
  | CustomError "string option" error_type
  | TypeError

text \<open>One element of the \<^verbatim>\<open>errors\<close> array of a GraphQL response.\<close>

record gql_error =
  err_type :: "string option"
  err_message :: "string option"

text \<open>
  What \<^verbatim>\<open>retryer(fetcher, variables)\<close> resolves to, as far as the fetchers read it:
  \<^verbatim>\<open>res.data.errors\<close> (missing, or an array, which is truthy even when empty),
  \<^verbatim>\<open>res.data.data.user\<close> (possibly \<^verbatim>\<open>null\<close>) and \<^verbatim>\<open>res.statusText\<close>.
\<close>

record 'u response =
  errors :: "gql_error list option"
  user :: "'u option"
  statusText :: string

text \<open>\<^verbatim>\<open>xs[0]\<close>: \<^verbatim>\<open>undefined\<close> on an empty array.\<close>

definition first_elem :: "'a list \<Rightarrow> 'a option" where
  "first_elem xs = (case xs of [] \<Rightarrow> None | x # _ \<Rightarrow> Some x)"

section \<open>JavaScript numbers\<close>

text \<open>
  A number is an IEEE 754 double. \<open>Num m e\<close> is the double of value \<open>m * 2^e\<close> in the
  format's own unique form: a significand \<open>m\<close> of 53 bits with \<open>-1074 \<le> e \<le> 971\<close>, or a
  shorter one with \<open>e = -1074\<close> (zero and the subnormal numbers). Negative zero is not told
  apart from zero; the code modelled here divides by sums of positive literals only.
\<close>

datatype number = Num int int | PosInf | NegInf | NaN

text \<open>The value of a finite number.\<close>

definition two_pow :: "int \<Rightarrow> rat" where
  "two_pow e = (if 0 \<le> e then 2 ^ nat e else 1 / 2 ^ nat (- e))"

fun exact :: "number \<Rightarrow> rat" where
  "exact (Num m e) = of_int m * two_pow e"
| "exact x = 0"

text \<open>The number of binary digits of a positive integer.\<close>

function bit_length :: "int \<Rightarrow> nat" where
  "bit_length n = (if n \<le> 0 then 0 else Suc (bit_length (n div 2)))"
  by pat_completeness auto
termination
  by (relation "measure nat") auto

declare bit_length.simps [simp del]

text \<open>
  \<open>round_ratio negative n d\<close> rounds \<open>n / d\<close>, for \<open>0 \<le> n\<close> and \<open>0 < d\<close>, to the nearest
  double, ties to the even significand, and gives it its sign. \<open>lg\<close> is the integer with
  \<open>2^lg \<le> n / d < 2^(lg + 1)\<close>; the significand is \<open>n / d\<close> scaled by \<open>2^e\<close> and rounded,
  where \<open>e\<close> leaves 53 bits, or is \<open>-1074\<close> below the normal range. A rounded significand
  of \<open>2^53\<close> moves to the next exponent, and an exponent above 971 is an overflow.
\<close>

definition round_ratio :: "bool \<Rightarrow> int \<Rightarrow> int \<Rightarrow> number" where
  "round_ratio negative n d =
     (if n = 0 then Num 0 (- 1074)
      else
        (let k = int (bit_length n) - int (bit_length d);
             lg = (if (if 0 \<le> k then d * 2 ^ nat k \<le> n else d \<le> n * 2 ^ nat (- k))
                   then k else k - 1);
             e = max (lg - 52) (- 1074);
             N = (if 0 \<le> e then n else n * 2 ^ nat (- e));
             D = (if 0 \<le> e then d * 2 ^ nat e else d);
             q = N div D;
             r = N mod D;
             m = (if 2 * r < D then q else if D < 2 * r then q + 1
                  else if even q then q else q + 1);
             m' = (if m = 9007199254740992 then 4503599627370496 else m);
             e' = (if m = 9007199254740992 then e + 1 else e)
         in if 971 < e' then (if negative then NegInf else PosInf)
            else Num (if negative then - m' else m') e'))"

text \<open>
  A decimal literal of the source and a number of a JSON text denote the nearest double.
\<close>

definition js_number :: "rat \<Rightarrow> number" where
  "js_number x =
     (case quotient_of x of (p, q) \<Rightarrow> round_ratio (p < 0) \<bar>p\<bar> q)"

text \<open>
  The operators \<^verbatim>\<open>+\<close>, \<^verbatim>\<open>-\<close>, \<^verbatim>\<open>*\<close> and \<^verbatim>\<open>/\<close>: the exact result of two finite numbers,
  rounded.
\<close>

definition round_scaled :: "int \<Rightarrow> int \<Rightarrow> number" where
  "round_scaled M e =
     (if 0 \<le> e then round_ratio (M < 0) (\<bar>M\<bar> * 2 ^ nat e) 1
      else round_ratio (M < 0) \<bar>M\<bar> (2 ^ nat (- e)))"

fun js_neg :: "number \<Rightarrow> number" where
  "js_neg (Num m e) = Num (- m) e"
| "js_neg PosInf = NegInf"
| "js_neg NegInf = PosInf"
| "js_neg NaN = NaN"

fun js_add :: "number \<Rightarrow> number \<Rightarrow> number" where
  "js_add (Num m1 e1) (Num m2 e2) =
     (let e = min e1 e2
      in round_scaled (m1 * 2 ^ nat (e1 - e) + m2 * 2 ^ nat (e2 - e)) e)"
| "js_add NaN y = NaN"
| "js_add x NaN = NaN"
| "js_add PosInf NegInf = NaN"
| "js_add NegInf PosInf = NaN"
| "js_add PosInf y = PosInf"
| "js_add NegInf y = NegInf"
| "js_add (Num m e) PosInf = PosInf"
| "js_add (Num m e) NegInf = NegInf"

definition js_sub :: "number \<Rightarrow> number \<Rightarrow> number" where
  "js_sub x y = js_add x (js_neg y)"

text \<open>The sign of a number that is not \<^verbatim>\<open>NaN\<close>, as 1, 0 or -1.\<close>

fun js_sign :: "number \<Rightarrow> int" where
  "js_sign (Num m e) = sgn m"
| "js_sign PosInf = 1"
| "js_sign NegInf = - 1"
| "js_sign NaN = 0"

fun js_mul :: "number \<Rightarrow> number \<Rightarrow> number" where
  "js_mul (Num m1 e1) (Num m2 e2) = round_scaled (m1 * m2) (e1 + e2)"
| "js_mul NaN y = NaN"
| "js_mul x NaN = NaN"
| "js_mul x y =
     (if js_sign x = 0 \<or> js_sign y = 0 then NaN
      else if js_sign x = js_sign y then PosInf else NegInf)"

fun js_div :: "number \<Rightarrow> number \<Rightarrow> number" where
  "js_div (Num m1 e1) (Num m2 e2) =
     (if m2 = 0 then (if m1 = 0 then NaN else if 0 < m1 then PosInf else NegInf)
      else round_ratio ((m1 < 0) \<noteq> (m2 < 0))
             (\<bar>m1\<bar> * 2 ^ nat (e1 - e2)) (\<bar>m2\<bar> * 2 ^ nat (e2 - e1)))"
| "js_div NaN y = NaN"
| "js_div x NaN = NaN"
| "js_div (Num m e) y = Num 0 (- 1074)"
| "js_div x (Num m e) = (if (js_sign x = 1) = (0 \<le> m) then PosInf else NegInf)"
| "js_div x y = NaN"

text \<open>
  \<^verbatim>\<open>xs.sort(cmp)\<close>. The sort is stable; an element moves behind another only where the
  comparator is positive. For a comparator that orders the elements consistently, as the
  differences of finite sizes do and as one that is \<^verbatim>\<open>NaN\<close> throughout does, every
  stable sort gives this list.
\<close>

fun insert_by :: "('a \<Rightarrow> 'a \<Rightarrow> number) \<Rightarrow> 'a \<Rightarrow> 'a list \<Rightarrow> 'a list" where
  "insert_by cmp x [] = [x]"
| "insert_by cmp x (y # ys) =
     (if js_sign (cmp x y) = 1 then y # insert_by cmp x ys else x # y # ys)"

definition js_sort :: "('a \<Rightarrow> 'a \<Rightarrow> number) \<Rightarrow> 'a list \<Rightarrow> 'a list" where
  "js_sort cmp xs = foldr (insert_by cmp) xs []"

section \<open>JavaScript objects as dictionaries\<close>

text \<open>
  An object with string keys, in the order in which \<^verbatim>\<open>Object.keys\<close>, \<^verbatim>\<open>Object.entries\<close>
  and the spread list its own properties: the keys that are array indices (canonical decimal
  numerals up to \<open>2^32 - 2\<close>) in ascending order, then the others in the order of their
  creation. Assigning to an existing key keeps its position.
\<close>

definition digit :: "char \<Rightarrow> nat option" where
  "digit c =
     map_of [(CHR ''0'', 0), (CHR ''1'', 1), (CHR ''2'', 2), (CHR ''3'', 3), (CHR ''4'', 4),
             (CHR ''5'', 5), (CHR ''6'', 6), (CHR ''7'', 7), (CHR ''8'', 8), (CHR ''9'', 9)] c"

fun decimal :: "nat \<Rightarrow> string \<Rightarrow> nat option" where
  "decimal acc [] = Some acc"
| "decimal acc (c # cs) = (case digit c of None \<Rightarrow> None | Some d \<Rightarrow> decimal (10 * acc + d) cs)"

definition array_index :: "string \<Rightarrow> nat option" where
  "array_index k =
     (case k of
        [] \<Rightarrow> None
      | c # cs \<Rightarrow>
          if c = CHR ''0'' \<and> cs \<noteq> [] then None
          else (case decimal 0 k of
                  None \<Rightarrow> None
                | Some n \<Rightarrow> if n \<le> 4294967294 then Some n else None))"

fun replace :: "string \<Rightarrow> 'v \<Rightarrow> (string \<times> 'v) list \<Rightarrow> (string \<times> 'v) list" where
  "replace k v [] = []"
| "replace k v (p # ps) = (if fst p = k then (k, v) # ps else p # replace k v ps)"

fun place :: "string \<Rightarrow> 'v \<Rightarrow> (string \<times> 'v) list \<Rightarrow> (string \<times> 'v) list" where
  "place k v [] = [(k, v)]"
| "place k v (p # ps) =
     (case array_index k of
        None \<Rightarrow> p # place k v ps
      | Some i \<Rightarrow>
          (case array_index (fst p) of
             None \<Rightarrow> (k, v) # p # ps
           | Some j \<Rightarrow> if j < i then p # place k v ps else (k, v) # p # ps))"

definition assign :: "string \<Rightarrow> 'v \<Rightarrow> (string \<times> 'v) list \<Rightarrow> (string \<times> 'v) list" where
  "assign k v obj = (if k \<in> set (map fst obj) then replace k v obj else place k v obj)"

text \<open>
  The members a plain object inherits from \<^verbatim>\<open>Object.prototype\<close>: a lookup
  \<^verbatim>\<open>obj[key]\<close> finds them when \<^verbatim>\<open>obj\<close> has no own property of that name, and each is
  truthy. All but \<^verbatim>\<open>constructor\<close> (the function \<^verbatim>\<open>Object\<close>) and \<^verbatim>\<open>__proto__\<close> (the
  prototype itself) are functions whose \<^verbatim>\<open>name\<close> is their key.
\<close>

definition object_prototype_members :: "string list" where
  "object_prototype_members =
     [''constructor'', ''__defineGetter__'', ''__defineSetter__'', ''hasOwnProperty'',
      ''__lookupGetter__'', ''__lookupSetter__'', ''isPrototypeOf'', ''propertyIsEnumerable'',
      ''toString'', ''valueOf'', ''__proto__'', ''toLocaleString'']"

definition members_named_like_key :: "string list" where
  "members_named_like_key =
     filter (\<lambda>k. k \<noteq> ''constructor'' \<and> k \<noteq> ''__proto__'') object_prototype_members"

section \<open>Top languages fetcher\<close>

text \<open>The value stored per language; the count is a small whole number.\<close>

record lang_stat =
  ls_name :: string
  ls_color :: "string option"
  ls_size :: number
  ls_count :: nat

type_synonym top_langs = "(string \<times> lang_stat) list"

subsection \<open>\<^verbatim>\<open>src/fetchers/top-languages-fetcher.js\<close>\<close>

definition customLanguages :: top_langs where
  "customLanguages =
   [ (''Python'', \<lparr>ls_name = ''Python'', ls_color = Some ''#3572A5'', ls_size = js_number (385 / 10), ls_count = 15\<rparr>),
     (''TypeScript'', \<lparr>ls_name = ''TypeScript'', ls_color = Some ''#2b7489'', ls_size = js_number (142 / 10), ls_count = 8\<rparr>),
     (''JavaScript'', \<lparr>ls_name = ''JavaScript'', ls_color = Some ''#f1e05a'', ls_size = js_number (128 / 10), ls_count = 7\<rparr>),
     (''Rust'', \<lparr>ls_name = ''Rust'', ls_color = Some ''#dea584'', ls_size = js_number (86 / 10), ls_count = 5\<rparr>),
     (''C++'', \<lparr>ls_name = ''C++'', ls_color = Some ''#f34b7d'', ls_size = js_number (68 / 10), ls_count = 4\<rparr>),
     (''Solidity'', \<lparr>ls_name = ''Solidity'', ls_color = Some ''#AA6746'', ls_size = js_number (42 / 10), ls_count = 3\<rparr>),
     (''Shell'', \<lparr>ls_name = ''Shell'', ls_color = Some ''#89e051'', ls_size = js_number (38 / 10), ls_count = 6\<rparr>),
     (''Go'', \<lparr>ls_name = ''Go'', ls_color = Some ''#00ADD8'', ls_size = js_number (32 / 10), ls_count = 2\<rparr>),
     (''C'', \<lparr>ls_name = ''C'', ls_color = Some ''#555555'', ls_size = js_number (29 / 10), ls_count = 2\<rparr>),
     (''Dockerfile'', \<lparr>ls_name = ''Dockerfile'', ls_color = Some ''#384d54'', ls_size = js_number (21 / 10), ls_count = 4\<rparr>),
     (''PowerShell'', \<lparr>ls_name = ''PowerShell'', ls_color = Some ''#012456'', ls_size = js_number (16 / 10), ls_count = 3\<rparr>),
     (''Makefile'', \<lparr>ls_name = ''Makefile'', ls_color = Some ''#427819'', ls_size = js_number (13 / 10), ls_count = 2\<rparr>) ]"

text \<open>
  \<^verbatim>\<open>Object.values(t).reduce((acc, curr) => acc + curr.size, 0)\<close>, then the \<^verbatim>\<open>forEach\<close>
  that rewrites every size as \<^verbatim>\<open>(size / totalBytes) * 100\<close>, then the sort of the entries
  by \<^verbatim>\<open>b.size - a.size\<close> and the \<^verbatim>\<open>reduce\<close> that rebuilds an object in that order.
\<close>

definition totalBytes :: "top_langs \<Rightarrow> number" where
  "totalBytes t = foldl (\<lambda>acc curr. js_add acc (ls_size curr)) (Num 0 (- 1074)) (map snd t)"

definition to_percentages :: "top_langs \<Rightarrow> top_langs" where
  "to_percentages t =
     (let total = totalBytes t
      in map (\<lambda>(key, v). (key, v\<lparr>ls_size := js_mul (js_div (ls_size v) total) (js_number 100)\<rparr>)) t)"

definition sort_by_size :: "top_langs \<Rightarrow> top_langs" where
  "sort_by_size t =
     foldl (\<lambda>acc (key, v). assign key v acc) []
       (js_sort (\<lambda>(ka, a) (kb, b). js_sub (ls_size b) (ls_size a)) t)"

text \<open>
  The request of the languages query carries only the login. Every fetcher of this theory
  takes the replies the transport would give, in order, and returns its outcome together
  with the requests it has issued; this file's \<^verbatim>\<open>fetchTopLanguages\<close> issues none.
\<close>

type_synonym lang_request = "string option"

text \<open>A language edge of the API; its size is a whole number of bytes in the JSON text.\<close>

record lang_edge =
  edge_size :: nat
  node_color :: "string option"
  node_name :: string

record lang_repo =
  lr_name :: string
  lr_edges :: "lang_edge list"

type_synonym lang_response = "lang_repo list response"

definition fetchTopLanguages ::
  "lang_response list \<Rightarrow> string option \<Rightarrow> string list \<Rightarrow> number \<Rightarrow> number \<Rightarrow>
     (error + top_langs) \<times> lang_request list" where
  "fetchTopLanguages replies username exclude_repo size_weight count_weight =
     (if \<not> truthy username then (Inl (MissingParamError [''username'']), [])
      else (Inr (sort_by_size (to_percentages customLanguages)), []))"

subsection \<open>The two further versions of the file in \<^verbatim>\<open>unnamed/part_000\<close>\<close>

text \<open>
  The first version of \<^verbatim>\<open>part_000\<close> (lines 1 to 217) queries the API, classifies an
  upstream error, merges the language edges of the repositories, and then returns a table of
  literals. The second (lines 218 to 375) is the file above with another table.
\<close>

definition customLanguages_part0 :: top_langs where
  "customLanguages_part0 =
   [ (''Python'', \<lparr>ls_name = ''Python'', ls_color = Some ''#3572A5'', ls_size = js_number (4471 / 100), ls_count = 15\<rparr>),
     (''TypeScript'', \<lparr>ls_name = ''TypeScript'', ls_color = Some ''#2b7489'', ls_size = js_number (1508 / 100), ls_count = 8\<rparr>),
     (''JavaScript'', \<lparr>ls_name = ''JavaScript'', ls_color = Some ''#f1e05a'', ls_size = js_number (1364 / 100), ls_count = 7\<rparr>),
     (''Rust'', \<lparr>ls_name = ''Rust'', ls_color = Some ''#dea584'', ls_size = js_number (928 / 100), ls_count = 5\<rparr>),
     (''C++'', \<lparr>ls_name = ''C++'', ls_color = Some ''#f34b7d'', ls_size = js_number (722 / 100), ls_count = 4\<rparr>),
     (''Solidity'', \<lparr>ls_name = ''Solidity'', ls_color = Some ''#AA6746'', ls_size = js_number (488 / 100), ls_count = 3\<rparr>),
     (''Go'', \<lparr>ls_name = ''Go'', ls_color = Some ''#00ADD8'', ls_size = js_number (321 / 100), ls_count = 2\<rparr>),
     (''C'', \<lparr>ls_name = ''C'', ls_color = Some ''#555555'', ls_size = js_number (198 / 100), ls_count = 2\<rparr>) ]"

text \<open>
  The block both fetching functions run when \<^verbatim>\<open>res.data.errors\<close> is truthy
  (\<^verbatim>\<open>stats-fetcher.js\<close> lines 189 to 207, \<^verbatim>\<open>part_000\<close> lines 80 to 98); the two copies
  differ only in the text of the last message, the parameter \<open>generic\<close>. It reads the
  first element of the array only. \<^verbatim>\<open>wrapTextMultiline\<close> lives in \<^verbatim>\<open>common/utils.js\<close> and
  is a parameter.
\<close>

definition upstream_error ::
  "(string \<Rightarrow> nat \<Rightarrow> nat \<Rightarrow> string list) \<Rightarrow> string \<Rightarrow> string \<Rightarrow> gql_error list \<Rightarrow> error" where
  "upstream_error wrapTextMultiline generic status errs =
     (case first_elem errs of
        None \<Rightarrow> TypeError
      | Some e \<Rightarrow>
          if err_type e = Some ''NOT_FOUND''
          then CustomError (Some (js_or (err_message e) ''Could not fetch user.'')) USER_NOT_FOUND
          else (case err_message e of
                  None \<Rightarrow> CustomError (Some generic) GRAPHQL_ERROR
                | Some m \<Rightarrow>
                    if m \<noteq> []
                    then CustomError (first_elem (wrapTextMultiline m 90 1)) (StatusText status)
                    else CustomError (Some generic) GRAPHQL_ERROR))"

text \<open>
  \<^verbatim>\<open>part_000\<close> lines 100 to 114. \<^verbatim>\<open>repoToHide\<close> is a plain object, so
  \<^verbatim>\<open>repoToHide[name]\<close> is truthy for an excluded name and for the name of a member of
  \<^verbatim>\<open>Object.prototype\<close>. The \<^verbatim>\<open>sort\<close> of line 113 subtracts the missing \<^verbatim>\<open>size\<close> of two
  repository nodes, so its comparator yields \<^verbatim>\<open>NaN\<close> throughout.
\<close>

definition hide_repos :: "string list \<Rightarrow> lang_repo list \<Rightarrow> lang_repo list" where
  "hide_repos exclude_repo repoNodes =
     filter (\<lambda>node. \<not> (lr_name node \<in> set exclude_repo
                         \<or> lr_name node \<in> set object_prototype_members))
       (js_sort (\<lambda>a b. NaN) repoNodes)"

text \<open>Lines 118 to 121: repositories without edges dropped, the edges flattened.\<close>

definition flatten_edges :: "lang_repo list \<Rightarrow> lang_edge list" where
  "flatten_edges repoNodes =
     foldl (\<lambda>acc curr. lr_edges curr @ acc) []
       (filter (\<lambda>node. length (lr_edges node) > 0) repoNodes)"

text \<open>
  Lines 122 to 146, the callback of the second \<^verbatim>\<open>reduce\<close>. \<open>repoCount\<close> is the one counter
  of line 116, shared by all languages. \<^verbatim>\<open>acc[name]\<close> is the own entry of the accumulator
  when there is one. Otherwise, for the names of \<open>members_named_like_key\<close>, it is the
  inherited function, which passes the test of line 129; its \<^verbatim>\<open>size\<close> is \<^verbatim>\<open>undefined\<close>
  and the sum is \<^verbatim>\<open>NaN\<close>. For every other name it is \<^verbatim>\<open>undefined\<close> or fails the
  comparison of the names.
\<close>

definition merge_edge :: "top_langs \<times> nat \<Rightarrow> lang_edge \<Rightarrow> top_langs \<times> nat" where
  "merge_edge st prev =
     (case st of (acc, repoCount) \<Rightarrow>
        (case (case map_of acc (node_name prev) of
                 None \<Rightarrow>
                   if node_name prev \<in> set members_named_like_key
                   then (NaN, repoCount + 1)
                   else (js_number (of_nat (edge_size prev)), 1)
               | Some cur \<Rightarrow>
                   if node_name prev = ls_name cur
                   then (js_add (js_number (of_nat (edge_size prev))) (ls_size cur), repoCount + 1)
                   else (js_number (of_nat (edge_size prev)), 1))
         of (langSize, repoCount') \<Rightarrow>
           (assign (node_name prev)
              \<lparr>ls_name = node_name prev, ls_color = node_color prev,
               ls_size = langSize, ls_count = repoCount'\<rparr> acc,
            repoCount')))"

definition merge_edges :: "lang_edge list \<Rightarrow> top_langs \<times> nat" where
  "merge_edges edges = foldl merge_edge ([], 0) edges"

text \<open>Lines 148 to 153; \<open>pow\<close> stands for \<^verbatim>\<open>Math.pow\<close>.\<close>

definition apply_weights ::
  "(number \<Rightarrow> number \<Rightarrow> number) \<Rightarrow> number \<Rightarrow> number \<Rightarrow> top_langs \<Rightarrow> top_langs" where
  "apply_weights pow size_weight count_weight t =
     map (\<lambda>(name, v).
            (name, v\<lparr>ls_size := js_mul (pow (ls_size v) size_weight)
                                     (pow (js_number (of_nat (ls_count v))) count_weight)\<rparr>)) t"

text \<open>
  \<^verbatim>\<open>part_000\<close> lines 206 to 211: the keys sorted by
  \<^verbatim>\<open>customLanguages[b].size - customLanguages[a].size\<close>, and an object rebuilt in that order.
  The keys are those of the table itself, so every lookup finds its entry.
\<close>

definition lookup_size :: "top_langs \<Rightarrow> string \<Rightarrow> number" where
  "lookup_size t k = (case map_of t k of None \<Rightarrow> NaN | Some v \<Rightarrow> ls_size v)"

definition sort_keys_by_size :: "top_langs \<Rightarrow> top_langs" where
  "sort_keys_by_size t =
     foldl (\<lambda>result key. (case map_of t key of None \<Rightarrow> result | Some v \<Rightarrow> assign key v result)) []
       (js_sort (\<lambda>a b. js_sub (lookup_size t b) (lookup_size t a)) (map fst t))"

text \<open>
  The fetching version. The one request goes out once the username has passed the check;
  \<open>None\<close> as outcome means that no reply came.
\<close>

definition fetchTopLanguages_part0_fetching ::
  "(number \<Rightarrow> number \<Rightarrow> number) \<Rightarrow> (string \<Rightarrow> nat \<Rightarrow> nat \<Rightarrow> string list) \<Rightarrow>
     lang_response list \<Rightarrow> string option \<Rightarrow> string list \<Rightarrow> number \<Rightarrow> number \<Rightarrow>
     (error + top_langs) option \<times> lang_request list" where
  "fetchTopLanguages_part0_fetching pow wrapTextMultiline replies username exclude_repo
       size_weight count_weight =
     (if \<not> truthy username then (Some (Inl (MissingParamError [''username''])), [])
      else
        (case replies of
           [] \<Rightarrow> (None, [username])
         | res # _ \<Rightarrow>
             (case errors res of
                Some errs \<Rightarrow>
                  (Some (Inl (upstream_error wrapTextMultiline
                      ''Something went wrong while trying to retrieve the language data using the GraphQL API.''
                      (statusText res) errs)), [username])
              | None \<Rightarrow>
                  (case user res of
                     None \<Rightarrow> (Some (Inl TypeError), [username])
                   | Some nodes0 \<Rightarrow>
                       (let repoNodes = hide_repos exclude_repo nodes0;
                            merged = fst (merge_edges (flatten_edges repoNodes));
                            weighted = apply_weights pow size_weight count_weight merged;
                            topLangs = sort_keys_by_size customLanguages_part0
                        in (Some (Inr topLangs), [username]))))))"

definition fetchTopLanguages_part0_static ::
  "lang_response list \<Rightarrow> string option \<Rightarrow> string list \<Rightarrow> number \<Rightarrow> number \<Rightarrow>
     (error + top_langs) \<times> lang_request list" where
  "fetchTopLanguages_part0_static replies username exclude_repo size_weight count_weight =
     (if \<not> truthy username then (Inl (MissingParamError [''username'']), [])
      else (Inr (sort_by_size (to_percentages customLanguages_part0)), []))"

section \<open>Statistics fetcher (\<^verbatim>\<open>src/fetchers/stats-fetcher.js\<close>)\<close>

text \<open>
  The user object of a response, with the fields the code reads or writes; each
  \<^verbatim>\<open>{ totalCount: n }\<close> is the number \<open>n\<close>. The fields of the statistics query that the
  code never touches (contributions, issues, followers, discussions) are left out, except
  the two pull-request counts. Star counts are naturals, as the API gives them.
\<close>

record repo_node =
  repo_name :: string
  stargazers_totalCount :: nat

record page_info =
  hasNextPage :: bool
  endCursor :: "string option"

record repositories_conn =
  nodes :: "repo_node list"
  pageInfo :: page_info

record user_payload =
  u_name :: "string option"
  u_login :: string
  pullRequests_totalCount :: nat
  mergedPullRequests_totalCount :: "nat option"
  repositoriesContributedTo_totalCount :: nat
  repositories :: repositories_conn

type_synonym stats_response = "user_payload response"

record variables =
  login :: "string option"
  first :: nat
  after :: "string option"
  includeMergedPullRequests :: bool
  includeDiscussions :: bool
  includeDiscussionsAnswers :: bool

datatype query = GRAPHQL_REPOS_QUERY | GRAPHQL_STATS_QUERY

record request =
  req_query :: query
  req_variables :: variables

text \<open>\<^verbatim>\<open>fetcher\<close>, lines 79 to 90: the request that goes to the transport.\<close>

definition fetcher :: "variables \<Rightarrow> request" where
  "fetcher vs =
     \<lparr>req_query = (if truthy (after vs) then GRAPHQL_REPOS_QUERY else GRAPHQL_STATS_QUERY),
      req_variables = vs\<rparr>"

text \<open>
  How an activation of \<^verbatim>\<open>statsFetcher\<close>'s loop ends: the \<^verbatim>\<open>return res\<close> of line 112, a
  thrown error, or the loop condition turning false with \<open>stats\<close> as accumulated.
\<close>

datatype walk = EarlyReturn stats_response | Thrown error | LoopEnd stats_response

text \<open>\<^verbatim>\<open>stats.data.data.user.repositories.nodes.push(...repoNodes)\<close>, line 117.\<close>

definition push_nodes :: "stats_response \<Rightarrow> repo_node list \<Rightarrow> stats_response" where
  "push_nodes stats repoNodes =
     stats\<lparr>user := map_option
        (\<lambda>u. u\<lparr>repositories := (repositories u)\<lparr>nodes := nodes (repositories u) @ repoNodes\<rparr>\<rparr>)
        (user stats)\<rparr>"

text \<open>
  The loop of lines 101 to 130. \<open>env\<close> is \<^verbatim>\<open>process.env.FETCH_MULTI_PAGE_STARS\<close>. Each
  activation issues one request and takes the next reply; with no reply left the walk has
  no outcome (\<open>None\<close>). The second component lists the requests issued, in order.
\<close>

fun statsFetcher_loop ::
  "string option \<Rightarrow> string option \<Rightarrow> bool \<Rightarrow> bool \<Rightarrow> bool \<Rightarrow>
     stats_response option \<Rightarrow> string option \<Rightarrow> stats_response list \<Rightarrow>
     walk option \<times> request list" where
  "statsFetcher_loop env username imp idisc idans stats cursor [] =
     (None,
      [fetcher \<lparr>login = username, first = 100, after = cursor,
         includeMergedPullRequests = imp, includeDiscussions = idisc,
         includeDiscussionsAnswers = idans\<rparr>])"
| "statsFetcher_loop env username imp idisc idans stats cursor (res # replies) =
     (let req = fetcher \<lparr>login = username, first = 100, after = cursor,
                  includeMergedPullRequests = imp, includeDiscussions = idisc,
                  includeDiscussionsAnswers = idans\<rparr>
      in if errors res \<noteq> None then (Some (EarlyReturn res), [req])
         else
           (case user res of
              None \<Rightarrow> (Some (Thrown TypeError), [req])
            | Some u \<Rightarrow>
                (let repoNodes = nodes (repositories u);
                     stats' = (case stats of Some s \<Rightarrow> push_nodes s repoNodes | None \<Rightarrow> res);
                     repoNodesWithStars =
                       filter (\<lambda>node. stargazers_totalCount node \<noteq> 0) repoNodes
                 in if env = Some ''true''
                       \<and> length repoNodes = length repoNodesWithStars
                       \<and> hasNextPage (pageInfo (repositories u))
                    then (case statsFetcher_loop env username imp idisc idans (Some stats')
                                 (endCursor (pageInfo (repositories u))) replies
                          of (w, sent) \<Rightarrow> (w, req # sent))
                    else (Some (LoopEnd stats'), [req]))))"

text \<open>Lines 132 to 140, applied when \<^verbatim>\<open>stats.data.data.user\<close> is there.\<close>

definition override_stats :: "stats_response \<Rightarrow> stats_response" where
  "override_stats stats =
     (case user stats of
        None \<Rightarrow> stats
      | Some u \<Rightarrow>
          stats\<lparr>user := Some (u\<lparr>pullRequests_totalCount := 46,
                                 repositoriesContributedTo_totalCount := 15,
                                 repositories := (repositories u)\<lparr>nodes :=
                                   map (\<lambda>node. node\<lparr>stargazers_totalCount :=
                                          min (stargazers_totalCount node) 2\<rparr>)
                                     (nodes (repositories u))\<rparr>\<rparr>)\<rparr>)"

definition statsFetcher ::
  "string option \<Rightarrow> stats_response list \<Rightarrow> string option \<Rightarrow> bool \<Rightarrow> bool \<Rightarrow> bool \<Rightarrow>
     (error + stats_response) option \<times> request list" where
  "statsFetcher env replies username imp idisc idans =
     (case statsFetcher_loop env username imp idisc idans None None replies of
        (None, sent) \<Rightarrow> (None, sent)
      | (Some (EarlyReturn res), sent) \<Rightarrow> (Some (Inr res), sent)
      | (Some (Thrown e), sent) \<Rightarrow> (Some (Inl e), sent)
      | (Some (LoopEnd stats), sent) \<Rightarrow> (Some (Inr (override_stats stats)), sent))"

record rank =
  level :: string
  percentile :: nat

record stats =
  stat_name :: string
  totalPRs :: nat
  totalPRsMerged :: nat
  mergedPRsPercentage :: nat
  totalReviews :: nat
  totalCommits :: nat
  totalIssues :: nat
  totalStars :: nat
  totalDiscussionsStarted :: nat
  totalDiscussionsAnswered :: nat
  contributedTo :: nat
  rank :: rank

text \<open>
  \<^verbatim>\<open>fetchStats\<close>, lines 155 to 223. The \<^verbatim>\<open>Set\<close> built from \<open>exclude_repo\<close> in line 219 is
  never read, and \<open>include_all_commits\<close> is not used.
\<close>

definition fetchStats ::
  "string option \<Rightarrow> (string \<Rightarrow> nat \<Rightarrow> nat \<Rightarrow> string list) \<Rightarrow> stats_response list \<Rightarrow>
     string option \<Rightarrow> bool \<Rightarrow> string list \<Rightarrow> bool \<Rightarrow> bool \<Rightarrow> bool \<Rightarrow>
     (error + stats) option \<times> request list" where
  "fetchStats env wrapTextMultiline replies username include_all_commits exclude_repo
       include_merged_pull_requests include_discussions include_discussions_answers =
     (if \<not> truthy username then (Some (Inl (MissingParamError [''username''])), [])
      else
        (let stats = \<lparr>stat_name = '''', totalPRs = 46, totalPRsMerged = 40,
                      mergedPRsPercentage = 87, totalReviews = 15, totalCommits = 2100,
                      totalIssues = 0, totalStars = 10, totalDiscussionsStarted = 0,
                      totalDiscussionsAnswered = 0, contributedTo = 15,
                      rank = \<lparr>level = ''C+'', percentile = 45\<rparr>\<rparr>
         in case statsFetcher env replies username include_merged_pull_requests
                   include_discussions include_discussions_answers of
              (None, sent) \<Rightarrow> (None, sent)
            | (Some (Inl e), sent) \<Rightarrow> (Some (Inl e), sent)
            | (Some (Inr res), sent) \<Rightarrow>
                (case errors res of
                   Some errs \<Rightarrow>
                     (Some (Inl (upstream_error wrapTextMultiline
                        ''Something went wrong while trying to retrieve the stats data using the GraphQL API.''
                        (statusText res) errs)), sent)
                 | None \<Rightarrow>
                     (case user res of
                        None \<Rightarrow> (Some (Inl TypeError), sent)
                      | Some u \<Rightarrow>
                          (Some (Inr (stats\<lparr>stat_name := js_or (u_name u) (u_login u),
                                            totalCommits := 2100, totalPRs := 46,
                                            totalStars := 10, contributedTo := 15,
                                            rank := \<lparr>level = ''C+'', percentile = 45\<rparr>,
                                            totalStars := 10\<rparr>)), sent)))))"

section \<open>Notions the statements use\<close>

text \<open>The repository nodes a reply carries (none when it has no user).\<close>

definition page_nodes :: "stats_response \<Rightarrow> repo_node list" where
  "page_nodes res = (case user res of None \<Rightarrow> [] | Some u \<Rightarrow> nodes (repositories u))"

text \<open>
  The three conditions under which the walk goes past a page: the flag is the string
  \<^verbatim>\<open>"true"\<close>, every repository on the page has a star, and the API reports a next page
  (the page being one without errors and with a user).
\<close>

definition continues :: "string option \<Rightarrow> stats_response \<Rightarrow> bool" where
  "continues env res =
     (env = Some ''true'' \<and> errors res = None \<and>
      (case user res of
         None \<Rightarrow> False
       | Some u \<Rightarrow>
           list_all (\<lambda>node. 0 < stargazers_totalCount node) (nodes (repositories u))
           \<and> hasNextPage (pageInfo (repositories u))))"

text \<open>The value a fetcher returns, if it returns one.\<close>

definition returned :: "(error + 'a) option \<times> 'b \<Rightarrow> 'a option" where
  "returned outcome = (case fst outcome of Some (Inr r) \<Rightarrow> Some r | _ \<Rightarrow> None)"

text \<open>
  The record \<^verbatim>\<open>fetchStats\<close> builds, for a given display name.
\<close>

definition predefined_stats :: "string \<Rightarrow> stats" where
  "predefined_stats n =
     \<lparr>stat_name = n, totalPRs = 46, totalPRsMerged = 40, mergedPRsPercentage = 87,
      totalReviews = 15, totalCommits = 2100, totalIssues = 0, totalStars = 10,
      totalDiscussionsStarted = 0, totalDiscussionsAnswered = 0, contributedTo = 15,
      rank = \<lparr>level = ''C+'', percentile = 45\<rparr>\<rparr>"

text \<open>
  Size and count a returned mapping holds for a language; \<open>None\<close> when nothing was returned
  or the language is not a key.
\<close>

definition lang_entry :: "(error + top_langs) option \<Rightarrow> string \<Rightarrow> (number \<times> nat) option" where
  "lang_entry outcome k =
     (case outcome of
        Some (Inr t) \<Rightarrow> map_option (\<lambda>v. (ls_size v, ls_count v)) (map_of t k)
      | _ \<Rightarrow> None)"

text \<open>
  The sizes of a mapping in the order of its keys; their sum as \<^verbatim>\<open>+\<close> adds them up,
  starting from 0; and the sizes of what \<^verbatim>\<open>fetchTopLanguages\<close> has returned.
\<close>

definition sizes :: "top_langs \<Rightarrow> number list" where
  "sizes t = map (\<lambda>(k, v). ls_size v) t"

definition js_sum :: "number list \<Rightarrow> number" where
  "js_sum xs = foldl js_add (Num 0 (- 1074)) xs"

definition returned_sizes :: "error + top_langs \<Rightarrow> number list" where
  "returned_sizes outcome = (case outcome of Inl e \<Rightarrow> [] | Inr t \<Rightarrow> sizes t)"

text \<open>
  The running total the merge keeps for the edges of one language, in their order: the
  first size, then each further size added to the total so far.
\<close>

definition running_total :: "lang_edge list \<Rightarrow> number option" where
  "running_total es =
     foldl (\<lambda>t e. Some (case t of
                           None \<Rightarrow> js_number (of_nat (edge_size e))
                         | Some v \<Rightarrow> js_add (js_number (of_nat (edge_size e))) v))
       None es"

subsection \<open>The derivations in the words of the specification\<close>

text \<open>
  Section 4.4 of the specification, to compare the code with:
  the stars of the repositories whose name is not excluded, summed; and the share of merged
  pull requests, rounded as \<^verbatim>\<open>Math.round\<close> does, with 0 for a zero denominator.
\<close>

definition filtered_star_sum :: "string list \<Rightarrow> repo_node list \<Rightarrow> nat" where
  "filtered_star_sum exclude_repo ns =
     sum_list (map stargazers_totalCount (filter (\<lambda>n. repo_name n \<notin> set exclude_repo) ns))"

definition js_round :: "rat \<Rightarrow> int" where
  "js_round x = \<lfloor>x + 1 / 2\<rfloor>"

definition mergedPRsPercentage_spec :: "nat \<Rightarrow> nat \<Rightarrow> int" where
  "mergedPRsPercentage_spec merged prs =
     (if prs = 0 then 0 else js_round (of_nat merged / of_nat prs * 100))"

subsection \<open>The tables as they are returned\<close>

text \<open>
  The table \<^verbatim>\<open>top-languages-fetcher.js\<close> returns; in the shortest
  decimals that name them, its sizes are 38.50000000000001, 14.200000000000001,
  12.800000000000002, 8.600000000000001, 6.800000000000001, 4.200000000000001,
  3.8000000000000007, 3.2000000000000006, 2.9000000000000004, 2.1000000000000005,
  1.6000000000000003, 1.3000000000000003.
\<close>

definition topLangs_returned :: top_langs where
  "topLangs_returned =
   [ (''Python'', \<lparr>ls_name = ''Python'', ls_color = Some ''#3572A5'',
        ls_size = Num 5418393301680129 (- 47), ls_count = 15\<rparr>),
     (''TypeScript'', \<lparr>ls_name = ''TypeScript'', ls_color = Some ''#2b7489'',
        ls_size = Num 7993889338582631 (- 49), ls_count = 8\<rparr>),
     (''JavaScript'', \<lparr>ls_name = ''JavaScript'', ls_color = Some ''#f1e05a'',
        ls_size = Num 7205759403792795 (- 49), ls_count = 7\<rparr>),
     (''Rust'', \<lparr>ls_name = ''Rust'', ls_color = Some ''#dea584'',
        ls_size = Num 4841369599423284 (- 49), ls_count = 5\<rparr>),
     (''C++'', \<lparr>ls_name = ''C++'', ls_color = Some ''#f34b7d'',
        ls_size = Num 7656119366529844 (- 50), ls_count = 4\<rparr>),
     (''Solidity'', \<lparr>ls_name = ''Solidity'', ls_color = Some ''#AA6746'',
        ls_size = Num 4728779608739022 (- 50), ls_count = 3\<rparr>),
     (''Shell'', \<lparr>ls_name = ''Shell'', ls_color = Some ''#89e051'',
        ls_size = Num 8556839292003944 (- 51), ls_count = 6\<rparr>),
     (''Go'', \<lparr>ls_name = ''Go'', ls_color = Some ''#00ADD8'',
        ls_size = Num 7205759403792795 (- 51), ls_count = 2\<rparr>),
     (''C'', \<lparr>ls_name = ''C'', ls_color = Some ''#555555'',
        ls_size = Num 6530219459687220 (- 51), ls_count = 2\<rparr>),
     (''Dockerfile'', \<lparr>ls_name = ''Dockerfile'', ls_color = Some ''#384d54'',
        ls_size = Num 4728779608739022 (- 51), ls_count = 4\<rparr>),
     (''PowerShell'', \<lparr>ls_name = ''PowerShell'', ls_color = Some ''#012456'',
        ls_size = Num 7205759403792795 (- 52), ls_count = 3\<rparr>),
     (''Makefile'', \<lparr>ls_name = ''Makefile'', ls_color = Some ''#427819'',
        ls_size = Num 5854679515581646 (- 52), ls_count = 2\<rparr>) ]"

text \<open>
  The table the static version of \<^verbatim>\<open>part_000\<close> returns; its sizes
  are 44.71, 15.079999999999998, 13.639999999999999, 9.28, 7.22, 4.88, 3.2099999999999995,
  1.9799999999999998.
\<close>

definition topLangs_part0_static_returned :: top_langs where
  "topLangs_part0_static_returned =
   [ (''Python'', \<lparr>ls_name = ''Python'', ls_color = Some ''#3572A5'',
        ls_size = Num 6292373104366715 (- 47), ls_count = 15\<rparr>),
     (''TypeScript'', \<lparr>ls_name = ''TypeScript'', ls_color = Some ''#2b7489'',
        ls_size = Num 8489285297593384 (- 49), ls_count = 8\<rparr>),
     (''JavaScript'', \<lparr>ls_name = ''JavaScript'', ls_color = Some ''#f1e05a'',
        ls_size = Num 7678637364666695 (- 49), ls_count = 7\<rparr>),
     (''Rust'', \<lparr>ls_name = ''Rust'', ls_color = Some ''#dea584'',
        ls_size = Num 5224175567749775 (- 49), ls_count = 5\<rparr>),
     (''C++'', \<lparr>ls_name = ''C++'', ls_color = Some ''#f34b7d'',
        ls_size = Num 8128997327403745 (- 50), ls_count = 4\<rparr>),
     (''Solidity'', \<lparr>ls_name = ''Solidity'', ls_color = Some ''#AA6746'',
        ls_size = Num 5494391545392005 (- 50), ls_count = 3\<rparr>),
     (''Go'', \<lparr>ls_name = ''Go'', ls_color = Some ''#00ADD8'',
        ls_size = Num 7228277401929645 (- 51), ls_count = 2\<rparr>),
     (''C'', \<lparr>ls_name = ''C'', ls_color = Some ''#555555'',
        ls_size = Num 8917127262193581 (- 52), ls_count = 2\<rparr>) ]"

text \<open>
  The table the fetching version of \<^verbatim>\<open>part_000\<close> returns: the
  doubles its literals 44.71, 15.08, 13.64, 9.28, 7.22, 4.88, 3.21, 1.98 denote.
\<close>

definition topLangs_part0_fetching_returned :: top_langs where
  "topLangs_part0_fetching_returned =
   [ (''Python'', \<lparr>ls_name = ''Python'', ls_color = Some ''#3572A5'',
        ls_size = Num 6292373104366715 (- 47), ls_count = 15\<rparr>),
     (''TypeScript'', \<lparr>ls_name = ''TypeScript'', ls_color = Some ''#2b7489'',
        ls_size = Num 8489285297593385 (- 49), ls_count = 8\<rparr>),
     (''JavaScript'', \<lparr>ls_name = ''JavaScript'', ls_color = Some ''#f1e05a'',
        ls_size = Num 7678637364666696 (- 49), ls_count = 7\<rparr>),
     (''Rust'', \<lparr>ls_name = ''Rust'', ls_color = Some ''#dea584'',
        ls_size = Num 5224175567749775 (- 49), ls_count = 5\<rparr>),
     (''C++'', \<lparr>ls_name = ''C++'', ls_color = Some ''#f34b7d'',
        ls_size = Num 8128997327403745 (- 50), ls_count = 4\<rparr>),
     (''Solidity'', \<lparr>ls_name = ''Solidity'', ls_color = Some ''#AA6746'',
        ls_size = Num 5494391545392005 (- 50), ls_count = 3\<rparr>),
     (''Go'', \<lparr>ls_name = ''Go'', ls_color = Some ''#00ADD8'',
        ls_size = Num 7228277401929646 (- 51), ls_count = 2\<rparr>),
     (''C'', \<lparr>ls_name = ''C'', ls_color = Some ''#555555'',
        ls_size = Num 8917127262193582 (- 52), ls_count = 2\<rparr>) ]"

section \<open>Concrete inputs\<close>

text \<open>
  Stand-ins for the two library functions at the inputs used below: \<^verbatim>\<open>Math.pow\<close> for
  the exponents 0 and 1 (the doubles \<open>Num 0 (- 1074)\<close> and \<open>Num 4503599627370496 (- 52)\<close>),
  and \<^verbatim>\<open>wrapTextMultiline\<close> for a text that fits on one line.
\<close>

definition pow_0_1 :: "number \<Rightarrow> number \<Rightarrow> number" where
  "pow_0_1 x y =
     (if y = Num 0 (- 1074) then Num 4503599627370496 (- 52)
      else if y = Num 4503599627370496 (- 52) then x else NaN)"

definition no_wrap :: "string \<Rightarrow> nat \<Rightarrow> nat \<Rightarrow> string list" where
  "no_wrap m width maxLines = [m]"

text \<open>
  Two repositories, one contributing \<^verbatim>\<open>{Python: 300}\<close> and the other
  \<^verbatim>\<open>{Python: 200, Go: 100}\<close>, and the response carrying them.
\<close>

definition two_repos :: "lang_repo list" where
  "two_repos =
     [\<lparr>lr_name = ''first'',
       lr_edges = [\<lparr>edge_size = 300, node_color = Some ''#3572A5'', node_name = ''Python''\<rparr>]\<rparr>,
      \<lparr>lr_name = ''second'',
       lr_edges = [\<lparr>edge_size = 200, node_color = Some ''#3572A5'', node_name = ''Python''\<rparr>,
                   \<lparr>edge_size = 100, node_color = Some ''#00ADD8'', node_name = ''Go''\<rparr>]\<rparr>]"

definition two_repos_reply :: lang_response where
  "two_repos_reply = \<lparr>errors = None, user = Some two_repos, statusText = ''OK''\<rparr>"

definition no_repos_reply :: lang_response where
  "no_repos_reply = \<lparr>errors = None, user = Some [], statusText = ''OK''\<rparr>"

text \<open>
  Replies of the statistics API: a first page whose repositories all have stars and which
  reports a next page, a page with a repository without stars, a last page, and the reply
  for a login that does not exist (with a second error behind the first).
\<close>

definition starred_page :: stats_response where
  "starred_page =
     \<lparr>errors = None,
      user = Some \<lparr>u_name = Some ''The Octocat'', u_login = ''octocat'',
                   pullRequests_totalCount = 10, mergedPullRequests_totalCount = Some 5,
                   repositoriesContributedTo_totalCount = 3,
                   repositories = \<lparr>nodes = [\<lparr>repo_name = ''hello'', stargazers_totalCount = 5\<rparr>,
                                            \<lparr>repo_name = ''world'', stargazers_totalCount = 1\<rparr>],
                                   pageInfo = \<lparr>hasNextPage = True, endCursor = Some ''c1''\<rparr>\<rparr>\<rparr>,
      statusText = ''OK''\<rparr>"

definition unstarred_page :: stats_response where
  "unstarred_page =
     \<lparr>errors = None,
      user = Some \<lparr>u_name = None, u_login = ''octocat'',
                   pullRequests_totalCount = 0, mergedPullRequests_totalCount = None,
                   repositoriesContributedTo_totalCount = 0,
                   repositories = \<lparr>nodes = [\<lparr>repo_name = ''spoon'', stargazers_totalCount = 3\<rparr>,
                                            \<lparr>repo_name = ''knife'', stargazers_totalCount = 0\<rparr>],
                                   pageInfo = \<lparr>hasNextPage = True, endCursor = Some ''c2''\<rparr>\<rparr>\<rparr>,
      statusText = ''OK''\<rparr>"

definition last_page :: stats_response where
  "last_page =
     \<lparr>errors = None,
      user = Some \<lparr>u_name = None, u_login = ''octocat'',
                   pullRequests_totalCount = 0, mergedPullRequests_totalCount = None,
                   repositoriesContributedTo_totalCount = 0,
                   repositories = \<lparr>nodes = [\<lparr>repo_name = ''fork'', stargazers_totalCount = 7\<rparr>],
                                   pageInfo = \<lparr>hasNextPage = False, endCursor = None\<rparr>\<rparr>\<rparr>,
      statusText = ''OK''\<rparr>"

definition not_found_errors :: "gql_error list" where
  "not_found_errors =
     [\<lparr>err_type = Some ''NOT_FOUND'',
       err_message = Some ''Could not resolve to a User with the login of nobody.''\<rparr>,
      \<lparr>err_type = Some ''FORBIDDEN'', err_message = Some ''Resource not accessible''\<rparr>]"

definition stats_request :: "string option \<Rightarrow> string option \<Rightarrow> request" where
  "stats_request username cursor =
     fetcher \<lparr>login = username, first = 100, after = cursor,
       includeMergedPullRequests = False, includeDiscussions = False,
       includeDiscussionsAnswers = False\<rparr>"

text \<open>
  What the walk over \<open>starred_page\<close> and \<open>unstarred_page\<close> returns, and the reply for a user
  without pull requests.
\<close>

definition merged_pages :: stats_response where
  "merged_pages =
     \<lparr>errors = None,
      user = Some \<lparr>u_name = Some ''The Octocat'', u_login = ''octocat'',
                   pullRequests_totalCount = 46, mergedPullRequests_totalCount = Some 5,
                   repositoriesContributedTo_totalCount = 15,
                   repositories = \<lparr>nodes = [\<lparr>repo_name = ''hello'', stargazers_totalCount = 2\<rparr>,
                                            \<lparr>repo_name = ''world'', stargazers_totalCount = 1\<rparr>,
                                            \<lparr>repo_name = ''spoon'', stargazers_totalCount = 2\<rparr>,
                                            \<lparr>repo_name = ''knife'', stargazers_totalCount = 0\<rparr>],
                                   pageInfo = \<lparr>hasNextPage = True, endCursor = Some ''c1''\<rparr>\<rparr>\<rparr>,
      statusText = ''OK''\<rparr>"

definition newcomer :: user_payload where
  "newcomer =
     \<lparr>u_name = None, u_login = ''newcomer'',
      pullRequests_totalCount = 0, mergedPullRequests_totalCount = Some 0,
      repositoriesContributedTo_totalCount = 0,
      repositories = \<lparr>nodes = [], pageInfo = \<lparr>hasNextPage = False, endCursor = None\<rparr>\<rparr>\<rparr>"

definition newcomer_page :: stats_response where
  "newcomer_page = \<lparr>errors = None, user = Some newcomer, statusText = ''OK''\<rparr>"

text \<open>The replies of the two APIs for a login that does not exist.\<close>

definition not_found_stats_reply :: stats_response where
  "not_found_stats_reply = \<lparr>errors = Some not_found_errors, user = None, statusText = ''OK''\<rparr>"

definition not_found_lang_reply :: lang_response where
  "not_found_lang_reply = \<lparr>errors = Some not_found_errors, user = None, statusText = ''OK''\<rparr>"

section \<open>Double arithmetic at work\<close>

text \<open>
  Some values of this arithmetic: 0.1 + 0.2 is 0.30000000000000004 and not 0.3, 0.1 - 0.3
  is -0.19999999999999998, and a division by zero gives an infinity or \<^verbatim>\<open>NaN\<close>.
\<close>

lemma double_arithmetic_examples:
  "js_add (js_number (1 / 10)) (js_number (2 / 10)) = Num 5404319552844596 (- 54)
   \<and> js_number (3 / 10) = Num 5404319552844595 (- 54)
   \<and> js_sub (js_number (1 / 10)) (js_number (3 / 10)) = Num (- 7205759403792793) (- 55)
   \<and> js_div (js_number 1) (js_number 0) = PosInf
   \<and> js_div (js_number 0) (js_number 0) = NaN"
  by code_simp

section \<open>The tables the language fetchers return\<close>

lemma topLangs_value: "sort_by_size (to_percentages customLanguages) = topLangs_returned"
  by code_simp

lemma topLangs_part0_static_value:
  "sort_by_size (to_percentages customLanguages_part0) = topLangs_part0_static_returned"
  by code_simp

lemma topLangs_part0_fetching_value:
  "sort_keys_by_size customLanguages_part0 = topLangs_part0_fetching_returned"
  by code_simp

lemma hundred: "js_number 100 = Num 7036874417766400 (- 46)"
  by code_simp

lemma js_sum_topLangs: "js_sum (sizes topLangs_returned) = Num 7036874417766401 (- 46)"
  by code_simp

lemma js_sum_part0_static:
  "js_sum (sizes topLangs_part0_static_returned) = Num 7036874417766399 (- 46)"
  by code_simp

lemma js_sum_part0_fetching:
  "js_sum (sizes topLangs_part0_fetching_returned) = Num 7036874417766400 (- 46)"
  by code_simp

lemma exact_sum_topLangs:
  "sum_list (map exact (sizes topLangs_returned)) = 450359962737049675 / 4503599627370496"
  by code_simp

lemma exact_sum_part0_static:
  "sum_list (map exact (sizes topLangs_part0_static_returned))
     = 450359962737049583 / 4503599627370496"
  by code_simp

lemma fetchTopLanguages_value:
  "truthy username \<Longrightarrow>
     fetchTopLanguages replies username excl sw cw = (Inr topLangs_returned, [])"
  by (simp add: fetchTopLanguages_def topLangs_value)

lemma fetchTopLanguages_part0_static_value:
  "truthy username \<Longrightarrow>
     fetchTopLanguages_part0_static replies username excl sw cw
       = (Inr topLangs_part0_static_returned, [])"
  by (simp add: fetchTopLanguages_part0_static_def topLangs_part0_static_value)

lemma fetching_returns_table:
  assumes "truthy username" and "errors res = None" and "user res = Some nodes0"
  shows "fetchTopLanguages_part0_fetching pow wrap (res # rest) username excl sw cw
           = (Some (Inr topLangs_part0_fetching_returned), [username])"
  using assms
  by (simp add: fetchTopLanguages_part0_fetching_def Let_def topLangs_part0_fetching_value)

lemma fetching_returned_is_table:
  assumes "fst (fetchTopLanguages_part0_fetching pow wrap replies username excl sw cw) = Some (Inr t)"
  shows "t = topLangs_part0_fetching_returned"
  using assms
  by (auto simp: fetchTopLanguages_part0_fetching_def Let_def topLangs_part0_fetching_value
      split: if_splits list.splits option.splits)

text \<open>
  C2, as the code has it. Two calls of \<^verbatim>\<open>fetchTopLanguages\<close> with truthy usernames return
  the same mapping, whatever the usernames, the exclusion lists, the two weights and the
  replies of the API: a fixed table. Its sizes are the literals of the file normalised to
  percentages in double arithmetic, and they add up to 100 only up to rounding: added in
  their order they give 100.00000000000001 in \<^verbatim>\<open>top-languages-fetcher.js\<close> and
  99.99999999999999 in the static version of \<^verbatim>\<open>part_000\<close>, and their exact sums are
  within \<open>10^-13\<close> of 100. The version of \<^verbatim>\<open>part_000\<close> that queries the API returns its
  literals as they are, which add up to 100, whenever it returns a mapping; it does so
  for every reply without errors that has a user.
\<close>

theorem fetchTopLanguages_constant_table:
  assumes "truthy u1" and "truthy u2"
  shows "fetchTopLanguages replies1 u1 excl1 sw1 cw1 = fetchTopLanguages replies2 u2 excl2 sw2 cw2
       \<and> fetchTopLanguages replies1 u1 excl1 sw1 cw1 = (Inr topLangs_returned, [])
       \<and> js_sum (sizes topLangs_returned) = Num 7036874417766401 (- 46)
       \<and> \<bar>sum_list (map exact (sizes topLangs_returned)) - 100\<bar> < 1 / 10 ^ 13
       \<and> fetchTopLanguages_part0_static replies1 u1 excl1 sw1 cw1
           = fetchTopLanguages_part0_static replies2 u2 excl2 sw2 cw2
       \<and> fetchTopLanguages_part0_static replies1 u1 excl1 sw1 cw1
           = (Inr topLangs_part0_static_returned, [])
       \<and> js_sum (sizes topLangs_part0_static_returned) = Num 7036874417766399 (- 46)
       \<and> \<bar>sum_list (map exact (sizes topLangs_part0_static_returned)) - 100\<bar> < 1 / 10 ^ 13
       \<and> (\<forall>t1 t2.
             fst (fetchTopLanguages_part0_fetching pow1 wrap1 replies1 u1 excl1 sw1 cw1) = Some (Inr t1)
             \<longrightarrow> fst (fetchTopLanguages_part0_fetching pow2 wrap2 replies2 u2 excl2 sw2 cw2) = Some (Inr t2)
             \<longrightarrow> t1 = t2 \<and> t1 = topLangs_part0_fetching_returned)
       \<and> (\<forall>res rest nodes0.
             replies1 = res # rest \<longrightarrow> errors res = None \<longrightarrow> user res = Some nodes0
             \<longrightarrow> fst (fetchTopLanguages_part0_fetching pow1 wrap1 replies1 u1 excl1 sw1 cw1)
                   = Some (Inr topLangs_part0_fetching_returned))
       \<and> js_sum (sizes topLangs_part0_fetching_returned) = js_number 100"
proof -
  have v2: "t1 = t2 \<and> t1 = topLangs_part0_fetching_returned"
    if "fst (fetchTopLanguages_part0_fetching pow1 wrap1 replies1 u1 excl1 sw1 cw1) = Some (Inr t1)"
      and "fst (fetchTopLanguages_part0_fetching pow2 wrap2 replies2 u2 excl2 sw2 cw2) = Some (Inr t2)"
    for t1 t2
    using that fetching_returned_is_table by blast
  have v2': "fst (fetchTopLanguages_part0_fetching pow1 wrap1 replies1 u1 excl1 sw1 cw1)
               = Some (Inr topLangs_part0_fetching_returned)"
    if "replies1 = res # rest" and "errors res = None" and "user res = Some nodes0"
    for res rest nodes0
    using that assms(1) by (simp add: fetching_returns_table)
  have near: "\<bar>sum_list (map exact (sizes topLangs_returned)) - 100\<bar> < 1 / 10 ^ 13"
    "\<bar>sum_list (map exact (sizes topLangs_part0_static_returned)) - 100\<bar> < 1 / 10 ^ 13"
    by (simp_all add: exact_sum_topLangs exact_sum_part0_static)
  show ?thesis
    using fetchTopLanguages_value [OF assms(1)] fetchTopLanguages_value [OF assms(2)]
      fetchTopLanguages_part0_static_value [OF assms(1)]
      fetchTopLanguages_part0_static_value [OF assms(2)]
      v2 v2' near js_sum_topLangs js_sum_part0_static js_sum_part0_fetching hundred
    by simp
qed

theorem fetchTopLanguages_constant_table_witness:
  "truthy (Some ''octocat'') \<and> truthy (Some ''torvalds'')
   \<and> fetchTopLanguages [two_repos_reply] (Some ''octocat'') [''first''] (js_number 1) (js_number 0)
       = fetchTopLanguages [] (Some ''torvalds'') [] (js_number 2) (js_number 3)
   \<and> fst (fetchTopLanguages_part0_fetching pow_0_1 no_wrap [two_repos_reply]
            (Some ''octocat'') [''first''] (js_number 1) (js_number 0))
       = Some (Inr topLangs_part0_fetching_returned)
   \<and> fst (fetchTopLanguages_part0_fetching pow_0_1 no_wrap [no_repos_reply]
            (Some ''torvalds'') [] (js_number 0) (js_number 1))
       = Some (Inr topLangs_part0_fetching_returned)"
proof -
  have u1: "truthy (Some ''octocat'')" and u2: "truthy (Some ''torvalds'')"
    by (simp_all add: truthy_def)
  note c = fetchTopLanguages_constant_table [OF u1 u2,
      of "[two_repos_reply]" "[''first'']" "js_number 1" "js_number 0" "[]" "[]"
         "js_number 2" "js_number 3" pow_0_1 no_wrap pow_0_1 no_wrap]
  have a: "fst (fetchTopLanguages_part0_fetching pow_0_1 no_wrap [two_repos_reply]
            (Some ''octocat'') [''first''] (js_number 1) (js_number 0))
       = Some (Inr topLangs_part0_fetching_returned)"
    using c by (simp add: two_repos_reply_def)
  have b: "fst (fetchTopLanguages_part0_fetching pow_0_1 no_wrap [no_repos_reply]
            (Some ''torvalds'') [] (js_number 0) (js_number 1))
       = Some (Inr topLangs_part0_fetching_returned)"
    using u2 by (simp add: fetching_returns_table no_repos_reply_def)
  show ?thesis using c u1 u2 a b by blast
qed

text \<open>
  The statement of C2 fails on the code in its parenthesis: the sizes
  \<^verbatim>\<open>top-languages-fetcher.js\<close> returns do not sum to 100, neither as \<^verbatim>\<open>+\<close> adds them up
  (100.00000000000001) nor exactly, and those of the static version of \<^verbatim>\<open>part_000\<close> give
  99.99999999999999.
\<close>

theorem returned_sizes_do_not_sum_to_100:
  "js_sum (returned_sizes (fst (fetchTopLanguages [] (Some ''octocat'') []
                                  (js_number 1) (js_number 0))))
     = Num 7036874417766401 (- 46)
   \<and> js_number 100 = Num 7036874417766400 (- 46)
   \<and> js_sum (returned_sizes (fst (fetchTopLanguages [] (Some ''octocat'') []
                                    (js_number 1) (js_number 0))))
       \<noteq> js_number 100
   \<and> sum_list (map exact (returned_sizes (fst (fetchTopLanguages [] (Some ''octocat'') []
                                                 (js_number 1) (js_number 0)))))
       \<noteq> 100
   \<and> js_sum (returned_sizes (fst (fetchTopLanguages_part0_static [] (Some ''octocat'') []
                                    (js_number 1) (js_number 0))))
       \<noteq> js_number 100"
proof -
  have t: "truthy (Some ''octocat'')" by (simp add: truthy_def)
  show ?thesis
    by (simp add: fetchTopLanguages_value [OF t] fetchTopLanguages_part0_static_value [OF t]
        returned_sizes_def js_sum_topLangs js_sum_part0_static hundred exact_sum_topLangs)
qed

text \<open>
  C9. With a falsy username (missing or empty) every fetcher throws
  \<^verbatim>\<open>MissingParamError(["username"])\<close>, whatever the other arguments and the replies the
  API would give, and the list of issued requests is empty.
\<close>

theorem falsy_username_throws_without_request:
  assumes "\<not> truthy username"
  shows "fetchTopLanguages lreplies username excl sw cw
           = (Inl (MissingParamError [''username'']), [])
       \<and> fetchTopLanguages_part0_static lreplies username excl sw cw
           = (Inl (MissingParamError [''username'']), [])
       \<and> fetchTopLanguages_part0_fetching pow wrap lreplies username excl sw cw
           = (Some (Inl (MissingParamError [''username''])), [])
       \<and> fetchStats env wrap sreplies username iac excl imp idisc idans
           = (Some (Inl (MissingParamError [''username''])), [])"
  using assms
  by (simp add: fetchTopLanguages_def fetchTopLanguages_part0_static_def
      fetchTopLanguages_part0_fetching_def fetchStats_def)

theorem falsy_username_throws_without_request_witness:
  "\<not> truthy (Some '''') \<and> \<not> truthy None
   \<and> fetchTopLanguages [two_repos_reply] (Some '''') [] (js_number 1) (js_number 0)
       = (Inl (MissingParamError [''username'']), [])
   \<and> snd (fetchTopLanguages_part0_fetching pow_0_1 no_wrap [two_repos_reply] None []
            (js_number 1) (js_number 0)) = []
   \<and> snd (fetchStats (Some ''true'') no_wrap [] (Some '''') False [] False False False) = []"
proof -
  have e: "\<not> truthy (Some '''')" and n: "\<not> truthy None"
    by (simp_all add: truthy_def)
  show ?thesis
    using e n
      falsy_username_throws_without_request [OF e, of "[two_repos_reply]" "[]" "js_number 1"
        "js_number 0" pow_0_1 no_wrap "Some ''true''" "[]" False False False False]
      falsy_username_throws_without_request [OF n, of "[two_repos_reply]" "[]" "js_number 1"
        "js_number 0" pow_0_1 no_wrap "Some ''true''" "[]" False False False False]
    by simp
qed

section \<open>The merge of language edges in \<^verbatim>\<open>part_000\<close>\<close>

lemma map_of_replace:
  "k \<in> set (map fst acc) \<Longrightarrow> map_of (replace k v acc) n = (if n = k then Some v else map_of acc n)"
  by (induction acc) force+

lemma map_of_place:
  "k \<notin> set (map fst acc) \<Longrightarrow> map_of (place k v acc) n = (if n = k then Some v else map_of acc n)"
  by (induction acc) (auto split: option.splits)

lemma map_of_assign: "map_of (assign k v acc) n = (if n = k then Some v else map_of acc n)"
  by (simp add: assign_def map_of_replace map_of_place)

lemma merge_edges_snoc: "merge_edges (es @ [e]) = merge_edge (merge_edges es) e"
  by (simp add: merge_edges_def)

lemma map_of_merge_edge:
  "map_of (fst (merge_edge (acc, rc) e)) n =
     (if n = node_name e
      then Some (case map_of acc (node_name e) of
                   None \<Rightarrow>
                     if node_name e \<in> set members_named_like_key
                     then \<lparr>ls_name = node_name e, ls_color = node_color e,
                           ls_size = NaN, ls_count = rc + 1\<rparr>
                     else \<lparr>ls_name = node_name e, ls_color = node_color e,
                           ls_size = js_number (of_nat (edge_size e)), ls_count = 1\<rparr>
                 | Some cur \<Rightarrow>
                     if node_name e = ls_name cur
                     then \<lparr>ls_name = node_name e, ls_color = node_color e,
                           ls_size = js_add (js_number (of_nat (edge_size e))) (ls_size cur),
                           ls_count = rc + 1\<rparr>
                     else \<lparr>ls_name = node_name e, ls_color = node_color e,
                           ls_size = js_number (of_nat (edge_size e)), ls_count = 1\<rparr>)
      else map_of acc n)"
  by (simp add: merge_edge_def map_of_assign split: option.splits)

lemma merged_names:
  "map_of (fst (merge_edges es)) n = Some cur \<Longrightarrow> ls_name cur = n"
proof (induction es arbitrary: n cur rule: rev_induct)
  case Nil
  then show ?case by (simp add: merge_edges_def)
next
  case (snoc e es)
  obtain acc rc where m: "merge_edges es = (acc, rc)" by (cases "merge_edges es")
  with snoc show ?case
    by (auto simp: merge_edges_snoc map_of_merge_edge split: if_splits option.splits)
qed

lemma merged_keys:
  "(map_of (fst (merge_edges es)) n = None) = (n \<notin> node_name ` set es)"
proof (induction es rule: rev_induct)
  case Nil
  then show ?case by (simp add: merge_edges_def)
next
  case (snoc e es)
  obtain acc rc where m: "merge_edges es = (acc, rc)" by (cases "merge_edges es")
  with snoc show ?case
    by (auto simp: merge_edges_snoc map_of_merge_edge)
qed

lemma running_total_snoc:
  "running_total (es @ [e]) =
     Some (case running_total es of
             None \<Rightarrow> js_number (of_nat (edge_size e))
           | Some v \<Rightarrow> js_add (js_number (of_nat (edge_size e))) v)"
  by (simp add: running_total_def)

lemma running_total_Nil: "running_total [] = None"
  by (simp add: running_total_def)

lemma merged_sizes:
  assumes "n \<notin> set members_named_like_key"
  shows "map_option ls_size (map_of (fst (merge_edges es)) n)
           = running_total (filter (\<lambda>e. node_name e = n) es)"
proof (induction es rule: rev_induct)
  case Nil
  then show ?case by (simp add: merge_edges_def running_total_Nil)
next
  case (snoc e es)
  obtain acc rc where m: "merge_edges es = (acc, rc)" by (cases "merge_edges es")
  show ?case
  proof (cases "n = node_name e")
    case False
    with snoc m show ?thesis
      by (simp add: merge_edges_snoc map_of_merge_edge)
  next
    case True
    show ?thesis
    proof (cases "map_of acc n")
      case None
      with snoc m have "running_total (filter (\<lambda>e. node_name e = n) es) = None" by simp
      with None m True assms show ?thesis
        by (simp add: merge_edges_snoc map_of_merge_edge running_total_snoc)
    next
      case (Some cur)
      with merged_names [of es n cur] m have nm: "ls_name cur = n" by simp
      from Some snoc m have "running_total (filter (\<lambda>e. node_name e = n) es) = Some (ls_size cur)"
        by simp
      with Some m True nm show ?thesis
        by (simp add: merge_edges_snoc map_of_merge_edge running_total_snoc)
    qed
  qed
qed

lemma js_add_NaN: "js_add x NaN = NaN"
  by (cases x) simp_all

lemma merged_member_sizes:
  assumes "n \<in> set members_named_like_key"
  shows "map_option ls_size (map_of (fst (merge_edges es)) n)
           = (if n \<in> node_name ` set es then Some NaN else None)"
proof (induction es rule: rev_induct)
  case Nil
  then show ?case by (simp add: merge_edges_def)
next
  case (snoc e es)
  obtain acc rc where m: "merge_edges es = (acc, rc)" by (cases "merge_edges es")
  show ?case
  proof (cases "n = node_name e")
    case False
    with snoc m show ?thesis
      by (auto simp: merge_edges_snoc map_of_merge_edge)
  next
    case True
    show ?thesis
    proof (cases "map_of acc n")
      case None
      with m True assms show ?thesis
        by (simp add: merge_edges_snoc map_of_merge_edge)
    next
      case (Some cur)
      with merged_names [of es n cur] m have nm: "ls_name cur = n" by simp
      from Some snoc m have "ls_size cur = NaN" by (auto split: if_splits)
      with Some m True nm show ?thesis
        by (simp add: merge_edges_snoc map_of_merge_edge js_add_NaN)
    qed
  qed
qed

lemma two_repos_merged:
  "fst (merge_edges (flatten_edges (hide_repos [] two_repos))) =
     [(''Python'', \<lparr>ls_name = ''Python'', ls_color = Some ''#3572A5'',
                     ls_size = js_number 500, ls_count = 2\<rparr>),
      (''Go'', \<lparr>ls_name = ''Go'', ls_color = Some ''#00ADD8'',
                 ls_size = js_number 100, ls_count = 1\<rparr>)]"
  by code_simp

text \<open>
  The counter is shared: with the flattened edges A, A, B, A the three edges of A end with
  a count of 2, since the edge of B has reset the counter in between. A first edge of a
  language named like a function of \<^verbatim>\<open>Object.prototype\<close> is merged with that function,
  and a repository named like a member of \<^verbatim>\<open>Object.prototype\<close> is hidden.
\<close>

lemma shared_counter_example:
  "map_option ls_count
     (map_of (fst (merge_edges
        [\<lparr>edge_size = 1, node_color = None, node_name = ''A''\<rparr>,
         \<lparr>edge_size = 1, node_color = None, node_name = ''A''\<rparr>,
         \<lparr>edge_size = 1, node_color = None, node_name = ''B''\<rparr>,
         \<lparr>edge_size = 1, node_color = None, node_name = ''A''\<rparr>])) ''A'') = Some 2"
  by code_simp

lemma inherited_member_examples:
  "fst (merge_edges [\<lparr>edge_size = 7, node_color = None, node_name = ''toString''\<rparr>])
     = [(''toString'', \<lparr>ls_name = ''toString'', ls_color = None, ls_size = NaN, ls_count = 1\<rparr>)]
   \<and> hide_repos [] [\<lparr>lr_name = ''constructor'', lr_edges = []\<rparr>, \<lparr>lr_name = ''kept'', lr_edges = []\<rparr>]
     = [\<lparr>lr_name = ''kept'', lr_edges = []\<rparr>]"
  by code_simp

text \<open>
  C1, as the code has it. For the two repositories \<^verbatim>\<open>{Python: 300}\<close> and
  \<^verbatim>\<open>{Python: 200, Go: 100}\<close> the mapping \<^verbatim>\<open>fetchTopLanguages\<close> returns is its fixed table:
  Python with size 44.71 and count 15 and Go with size 3.21 and count 2 in the fetching
  version of \<^verbatim>\<open>part_000\<close>, 38.50000000000001 with 15 and 3.2000000000000006 with 2 in
  \<^verbatim>\<open>top-languages-fetcher.js\<close>. The merge of lines 118 to 146 of \<^verbatim>\<open>part_000\<close>, whose
  result is not returned, gives Python size 500 and count 2 and Go size 100 and count 1 on
  that input. In general, for a language whose name is not that of a function of
  \<^verbatim>\<open>Object.prototype\<close>, an edge of a name already present adds its size to the running
  total, and an edge of a new name seeds the entry with its size and a count of 1; the size
  of such a language is the running total of its edges.
\<close>

theorem merge_is_computed_and_discarded:
  "(truthy username
      \<longrightarrow> lang_entry (fst (fetchTopLanguages_part0_fetching pow wrap (two_repos_reply # rest)
                             username excl sw cw)) ''Python''
            = Some (Num 6292373104366715 (- 47), 15)
        \<and> lang_entry (fst (fetchTopLanguages_part0_fetching pow wrap (two_repos_reply # rest)
                             username excl sw cw)) ''Go''
            = Some (Num 7228277401929646 (- 51), 2)
        \<and> lang_entry (Some (fst (fetchTopLanguages (two_repos_reply # rest) username excl sw cw)))
            ''Python'' = Some (Num 5418393301680129 (- 47), 15)
        \<and> lang_entry (Some (fst (fetchTopLanguages (two_repos_reply # rest) username excl sw cw)))
            ''Go'' = Some (Num 7205759403792795 (- 51), 2))
   \<and> js_number (4471 / 100) = Num 6292373104366715 (- 47)
   \<and> js_number (321 / 100) = Num 7228277401929646 (- 51)
   \<and> fst (merge_edges (flatten_edges (hide_repos [] two_repos)))
       = [(''Python'', \<lparr>ls_name = ''Python'', ls_color = Some ''#3572A5'',
                         ls_size = js_number 500, ls_count = 2\<rparr>),
          (''Go'', \<lparr>ls_name = ''Go'', ls_color = Some ''#00ADD8'',
                     ls_size = js_number 100, ls_count = 1\<rparr>)]
   \<and> (\<forall>n. n \<notin> set members_named_like_key
        \<longrightarrow> map_option ls_size (map_of (fst (merge_edges es)) n)
            = running_total (filter (\<lambda>e. node_name e = n) es))
   \<and> (node_name e \<notin> set members_named_like_key \<longrightarrow> node_name e \<notin> node_name ` set es
        \<longrightarrow> map_of (fst (merge_edges (es @ [e]))) (node_name e)
            = Some \<lparr>ls_name = node_name e, ls_color = node_color e,
                    ls_size = js_number (of_nat (edge_size e)), ls_count = 1\<rparr>)
   \<and> (node_name e \<in> node_name ` set es
        \<longrightarrow> (\<exists>cur. map_of (fst (merge_edges es)) (node_name e) = Some cur
              \<and> map_option ls_size (map_of (fst (merge_edges (es @ [e]))) (node_name e))
                  = Some (js_add (js_number (of_nat (edge_size e))) (ls_size cur))))"
proof -
  have tables: "lang_entry (fst (fetchTopLanguages_part0_fetching pow wrap
                     (two_repos_reply # rest) username excl sw cw)) ''Python''
            = Some (Num 6292373104366715 (- 47), 15)
        \<and> lang_entry (fst (fetchTopLanguages_part0_fetching pow wrap (two_repos_reply # rest)
                             username excl sw cw)) ''Go''
            = Some (Num 7228277401929646 (- 51), 2)
        \<and> lang_entry (Some (fst (fetchTopLanguages (two_repos_reply # rest) username excl sw cw)))
            ''Python'' = Some (Num 5418393301680129 (- 47), 15)
        \<and> lang_entry (Some (fst (fetchTopLanguages (two_repos_reply # rest) username excl sw cw)))
            ''Go'' = Some (Num 7205759403792795 (- 51), 2)"
    if t: "truthy username"
  proof -
    have "fetchTopLanguages_part0_fetching pow wrap (two_repos_reply # rest) username excl sw cw
            = (Some (Inr topLangs_part0_fetching_returned), [username])"
      using t by (simp add: fetching_returns_table two_repos_reply_def)
    then show ?thesis
      by (simp add: fetchTopLanguages_value [OF t] lang_entry_def
          topLangs_part0_fetching_returned_def topLangs_returned_def)
  qed
  have literals: "js_number (4471 / 100) = Num 6292373104366715 (- 47)"
    "js_number (321 / 100) = Num 7228277401929646 (- 51)"
    by code_simp+
  obtain acc rc where m: "merge_edges es = (acc, rc)" by (cases "merge_edges es")
  have seeded: "map_of (fst (merge_edges (es @ [e]))) (node_name e)
            = Some \<lparr>ls_name = node_name e, ls_color = node_color e,
                    ls_size = js_number (of_nat (edge_size e)), ls_count = 1\<rparr>"
    if "node_name e \<notin> set members_named_like_key" and "node_name e \<notin> node_name ` set es"
  proof -
    from that(2) merged_keys [of es "node_name e"] m have "map_of acc (node_name e) = None"
      by simp
    with m that(1) show ?thesis by (simp add: merge_edges_snoc map_of_merge_edge)
  qed
  have added: "\<exists>cur. map_of (fst (merge_edges es)) (node_name e) = Some cur
              \<and> map_option ls_size (map_of (fst (merge_edges (es @ [e]))) (node_name e))
                  = Some (js_add (js_number (of_nat (edge_size e))) (ls_size cur))"
    if "node_name e \<in> node_name ` set es"
  proof -
    from that merged_keys [of es "node_name e"] m
    obtain cur where cur: "map_of acc (node_name e) = Some cur"
      by (cases "map_of acc (node_name e)") simp_all
    with merged_names [of es "node_name e" cur] m have "ls_name cur = node_name e" by simp
    with cur m show ?thesis by (simp add: merge_edges_snoc map_of_merge_edge)
  qed
  show ?thesis
    using tables literals two_repos_merged merged_sizes [of _ es] seeded added by simp
qed

theorem merge_is_computed_and_discarded_witness:
  "truthy (Some ''octocat'')
   \<and> lang_entry (fst (fetchTopLanguages_part0_fetching pow_0_1 no_wrap [two_repos_reply]
                        (Some ''octocat'') [] (js_number 1) (js_number 0))) ''Python''
       = Some (Num 6292373104366715 (- 47), 15)
   \<and> ''Python'' \<notin> set members_named_like_key \<and> ''Go'' \<notin> set members_named_like_key
   \<and> map_of (fst (merge_edges
        ([\<lparr>edge_size = 200, node_color = Some ''#3572A5'', node_name = ''Python''\<rparr>]
         @ [\<lparr>edge_size = 100, node_color = Some ''#00ADD8'', node_name = ''Go''\<rparr>]))) ''Go''
       = Some \<lparr>ls_name = ''Go'', ls_color = Some ''#00ADD8'',
               ls_size = js_number 100, ls_count = 1\<rparr>
   \<and> map_option ls_size (map_of (fst (merge_edges
        ([\<lparr>edge_size = 200, node_color = Some ''#3572A5'', node_name = ''Python''\<rparr>,
          \<lparr>edge_size = 100, node_color = Some ''#00ADD8'', node_name = ''Go''\<rparr>]
         @ [\<lparr>edge_size = 300, node_color = Some ''#3572A5'', node_name = ''Python''\<rparr>])))
        ''Python'') = Some (js_number 500)"
proof -
  let ?py200 = "\<lparr>edge_size = 200, node_color = Some ''#3572A5'', node_name = ''Python''\<rparr>"
  let ?go100 = "\<lparr>edge_size = 100, node_color = Some ''#00ADD8'', node_name = ''Go''\<rparr>"
  let ?py300 = "\<lparr>edge_size = 300, node_color = Some ''#3572A5'', node_name = ''Python''\<rparr>"
  have t: "truthy (Some ''octocat'')" by (simp add: truthy_def)
  have p: "''Python'' \<notin> set members_named_like_key" and g: "''Go'' \<notin> set members_named_like_key"
    by (simp_all add: members_named_like_key_def object_prototype_members_def)
  have a: "lang_entry (fst (fetchTopLanguages_part0_fetching pow_0_1 no_wrap
              [two_repos_reply] (Some ''octocat'') [] (js_number 1) (js_number 0))) ''Python''
       = Some (Num 6292373104366715 (- 47), 15)"
    using t merge_is_computed_and_discarded [of "Some ''octocat''" pow_0_1 no_wrap "[]"
        "[]" "js_number 1" "js_number 0" "[]" ?py200]
    by blast
  have b: "map_of (fst (merge_edges ([?py200] @ [?go100]))) ''Go''
       = Some \<lparr>ls_name = ''Go'', ls_color = Some ''#00ADD8'',
               ls_size = js_number 100, ls_count = 1\<rparr>"
    using g merge_is_computed_and_discarded [of "Some ''octocat''" pow_0_1 no_wrap "[]"
        "[]" "js_number 1" "js_number 0" "[?py200]" ?go100]
    by simp
  have sum: "js_add (js_number 300) (js_number 200) = js_number 500"
    by code_simp
  have "map_option ls_size (map_of (fst (merge_edges [?py200, ?go100])) ''Python'')
       = Some (js_number 200)"
    using p merge_is_computed_and_discarded [of "Some ''octocat''" pow_0_1 no_wrap "[]"
        "[]" "js_number 1" "js_number 0" "[?py200, ?go100]" ?py300]
    by (simp add: running_total_def)
  then have c: "map_option ls_size (map_of (fst (merge_edges ([?py200, ?go100] @ [?py300])))
        ''Python'') = Some (js_number 500)"
    using sum merge_is_computed_and_discarded [of "Some ''octocat''" pow_0_1 no_wrap "[]"
        "[]" "js_number 1" "js_number 0" "[?py200, ?go100]" ?py300]
    by auto
  show ?thesis using t p g a b c by blast
qed

text \<open>
  The statement of C1 fails on the code: for the two repositories of the claim, the
  returned mapping holds neither size 500 and count 2 for Python nor size 100 and count 1
  for Go, in the fetching version as in \<^verbatim>\<open>top-languages-fetcher.js\<close>.
\<close>

theorem merged_totals_not_returned:
  "lang_entry (fst (fetchTopLanguages_part0_fetching pow_0_1 no_wrap [two_repos_reply]
                      (Some ''octocat'') [] (js_number 1) (js_number 0))) ''Python''
     \<noteq> Some (js_number 500, 2)
   \<and> lang_entry (fst (fetchTopLanguages_part0_fetching pow_0_1 no_wrap [two_repos_reply]
                        (Some ''octocat'') [] (js_number 1) (js_number 0))) ''Go''
       \<noteq> Some (js_number 100, 1)
   \<and> lang_entry (fst (fetchTopLanguages_part0_fetching pow_0_1 no_wrap [two_repos_reply]
                        (Some ''octocat'') [] (js_number 1) (js_number 0))) ''Python''
       = Some (js_number (4471 / 100), 15)
   \<and> lang_entry (fst (fetchTopLanguages_part0_fetching pow_0_1 no_wrap [two_repos_reply]
                        (Some ''octocat'') [] (js_number 1) (js_number 0))) ''Go''
       = Some (js_number (321 / 100), 2)
   \<and> lang_entry (Some (fst (fetchTopLanguages [two_repos_reply] (Some ''octocat'') []
                               (js_number 1) (js_number 0)))) ''Python''
       \<noteq> Some (js_number 500, 2)
   \<and> lang_entry (Some (fst (fetchTopLanguages [two_repos_reply] (Some ''octocat'') []
                               (js_number 1) (js_number 0)))) ''Go''
       \<noteq> Some (js_number 100, 1)"
proof -
  have t: "truthy (Some ''octocat'')" by (simp add: truthy_def)
  have literals: "js_number (4471 / 100) = Num 6292373104366715 (- 47)"
    "js_number (321 / 100) = Num 7228277401929646 (- 51)"
    by code_simp+
  have "fetchTopLanguages_part0_fetching pow_0_1 no_wrap [two_repos_reply]
          (Some ''octocat'') [] (js_number 1) (js_number 0)
          = (Some (Inr topLangs_part0_fetching_returned), [Some ''octocat''])"
    using t by (simp add: fetching_returns_table two_repos_reply_def)
  then show ?thesis
    by (simp add: fetchTopLanguages_value [OF t] lang_entry_def literals
        topLangs_part0_fetching_returned_def topLangs_returned_def)
qed

section \<open>The walk of \<^verbatim>\<open>statsFetcher\<close>, step by step\<close>

lemma filter_length_all: "(length xs = length (filter P xs)) = list_all P xs"
proof (induction xs)
  case Nil
  then show ?case by simp
next
  case (Cons x xs)
  show ?case
    using Cons length_filter_le [of P xs] by (auto simp del: length_filter_le)
qed

lemma loop_Nil_sent:
  "length (snd (statsFetcher_loop env un a b c stats cur [])) = 1"
  by simp

lemma loop_Cons_sent:
  "snd (statsFetcher_loop env un a b c stats cur (res # rs)) =
     fetcher \<lparr>login = un, first = 100, after = cur, includeMergedPullRequests = a,
       includeDiscussions = b, includeDiscussionsAnswers = c\<rparr>
     # (if continues env res
        then snd (statsFetcher_loop env un a b c
               (Some (case stats of Some s \<Rightarrow> push_nodes s (page_nodes res) | None \<Rightarrow> res))
               (endCursor (pageInfo (repositories (the (user res))))) rs)
        else [])"
  by (auto simp: Let_def continues_def page_nodes_def filter_length_all split_beta
      split: option.splits)


declare statsFetcher_loop.simps(2) [simp del]

lemma loop_continues:
  "Suc i < length (snd (statsFetcher_loop env un a b c stats cur replies))
   \<Longrightarrow> i < length replies \<and> continues env (replies ! i)"
proof (induction replies arbitrary: stats cur i)
  case Nil
  then show ?case by simp
next
  case (Cons res rs)
  show ?case
  proof (cases "continues env res")
    case False
    with Cons.prems show ?thesis by (simp add: loop_Cons_sent)
  next
    case True
    show ?thesis
    proof (cases i)
      case 0
      with True show ?thesis by simp
    next
      case (Suc j)
      with Cons.prems True
      have "Suc j < length (snd (statsFetcher_loop env un a b c
               (Some (case stats of Some s \<Rightarrow> push_nodes s (page_nodes res) | None \<Rightarrow> res))
               (endCursor (pageInfo (repositories (the (user res))))) rs))"
        by (simp add: loop_Cons_sent)
      from Cons.IH [OF this] Suc show ?thesis by simp
    qed
  qed
qed

lemma loop_flag_off:
  "env \<noteq> Some ''true''
   \<Longrightarrow> snd (statsFetcher_loop env un a b c stats cur replies) =
       [fetcher \<lparr>login = un, first = 100, after = cur, includeMergedPullRequests = a,
          includeDiscussions = b, includeDiscussionsAnswers = c\<rparr>]"
  by (cases replies) (simp_all add: loop_Cons_sent continues_def)

lemma loop_stop:
  "\<not> continues env res
   \<Longrightarrow> statsFetcher_loop env un a b c stats cur (res # rs) =
       (Some (if errors res \<noteq> None then EarlyReturn res
              else (case user res of
                      None \<Rightarrow> Thrown TypeError
                    | Some u \<Rightarrow> LoopEnd (case stats of Some s \<Rightarrow> push_nodes s (page_nodes res)
                                         | None \<Rightarrow> res))),
        [fetcher \<lparr>login = un, first = 100, after = cur, includeMergedPullRequests = a,
           includeDiscussions = b, includeDiscussionsAnswers = c\<rparr>])"
  by (auto simp: statsFetcher_loop.simps(2) Let_def continues_def page_nodes_def
      filter_length_all split: option.splits)

lemma loop_go:
  "continues env res
   \<Longrightarrow> statsFetcher_loop env un a b c stats cur (res # rs) =
       (fst (statsFetcher_loop env un a b c
               (Some (case stats of Some s \<Rightarrow> push_nodes s (page_nodes res) | None \<Rightarrow> res))
               (endCursor (pageInfo (repositories (the (user res))))) rs),
        fetcher \<lparr>login = un, first = 100, after = cur, includeMergedPullRequests = a,
           includeDiscussions = b, includeDiscussionsAnswers = c\<rparr>
        # snd (statsFetcher_loop env un a b c
               (Some (case stats of Some s \<Rightarrow> push_nodes s (page_nodes res) | None \<Rightarrow> res))
               (endCursor (pageInfo (repositories (the (user res))))) rs))"
  by (auto simp: statsFetcher_loop.simps(2) Let_def continues_def page_nodes_def
      filter_length_all split_beta split: option.splits)

lemma push_nodes_Nil: "push_nodes s [] = s"
  by (cases "user s") (simp_all add: push_nodes_def)

lemma push_nodes_append: "push_nodes (push_nodes s xs) ys = push_nodes s (xs @ ys)"
  by (cases "user s") (simp_all add: push_nodes_def)

lemma loop_end_Some:
  "statsFetcher_loop env un a b c (Some s0) cur replies = (Some (LoopEnd s), sent)
   \<Longrightarrow> s = push_nodes s0 (concat (map page_nodes (take (length sent) replies)))"
proof (induction replies arbitrary: s0 cur sent)
  case Nil
  then show ?case by simp
next
  case (Cons res rs)
  show ?case
  proof (cases "continues env res")
    case False
    with Cons.prems show ?thesis
      by (auto simp: loop_stop split: if_splits option.splits)
  next
    case True
    let ?rec = "statsFetcher_loop env un a b c (Some (push_nodes s0 (page_nodes res)))
                  (endCursor (pageInfo (repositories (the (user res))))) rs"
    from Cons.prems True have "?rec = (Some (LoopEnd s), tl sent)" and "sent = hd sent # tl sent"
      by (auto simp: loop_go prod_eq_iff)
    from Cons.IH [OF this(1)] this(2) show ?thesis
      by (metis (no_types, lifting) append_Nil2 concat.simps(2) length_Cons list.simps(9)
          push_nodes_append take_Suc_Cons)
  qed
qed


lemma loop_early_has_errors:
  "statsFetcher_loop env un a b c stats cur replies = (Some (EarlyReturn r), sent)
   \<Longrightarrow> errors r \<noteq> None"
proof (induction replies arbitrary: stats cur sent)
  case Nil
  then show ?case by simp
next
  case (Cons res rs)
  show ?case
  proof (cases "continues env res")
    case False
    with Cons.prems show ?thesis
      by (auto simp: loop_stop split: if_splits option.splits)
  next
    case True
    with Cons.prems have "statsFetcher_loop env un a b c
        (Some (case stats of Some s \<Rightarrow> push_nodes s (page_nodes res) | None \<Rightarrow> res))
        (endCursor (pageInfo (repositories (the (user res))))) rs = (Some (EarlyReturn r), tl sent)"
      by (auto simp: loop_go prod_eq_iff)
    from Cons.IH [OF this] show ?thesis .
  qed
qed

lemma loop_end_None:
  assumes "statsFetcher_loop env un a b c None cur replies = (Some (LoopEnd s), sent)"
  shows "\<exists>res rest u. replies = res # rest \<and> errors res = None \<and> user res = Some u
           \<and> s = push_nodes res (concat (map page_nodes (take (length sent - 1) rest)))"
proof (cases replies)
  case Nil
  with assms show ?thesis by simp
next
  case (Cons res rs)
  show ?thesis
  proof (cases "continues env res")
    case False
    with assms Cons show ?thesis
      by (auto simp: loop_stop push_nodes_Nil split: if_splits option.splits)
  next
    case True
    with assms Cons have rec: "statsFetcher_loop env un a b c (Some res)
        (endCursor (pageInfo (repositories (the (user res))))) rs = (Some (LoopEnd s), tl sent)"
      and sent: "sent = hd sent # tl sent"
      by (auto simp: loop_go prod_eq_iff)
    from True obtain u where "errors res = None" and "user res = Some u"
      by (auto simp: continues_def split: option.splits)
    moreover from loop_end_Some [OF rec] sent
    have "s = push_nodes res (concat (map page_nodes (take (length sent - 1) rs)))"
      by (metis length_tl)
    ultimately show ?thesis using Cons by simp
  qed
qed

lemma statsFetcher_sent:
  "snd (statsFetcher env replies un a b c) = snd (statsFetcher_loop env un a b c None None replies)"
  by (simp add: statsFetcher_def split: prod.splits option.splits walk.splits)

lemma override_stats_errors: "errors (override_stats s) = errors s"
  by (simp add: override_stats_def split: option.splits)

lemma push_nodes_errors: "errors (push_nodes s xs) = errors s"
  by (simp add: push_nodes_def)

lemma statsFetcher_success:
  assumes "statsFetcher env replies un a b c = (Some (Inr r), sent)" and "errors r = None"
  shows "\<exists>res rest u. replies = res # rest \<and> errors res = None \<and> user res = Some u
           \<and> r = override_stats
                   (push_nodes res (concat (map page_nodes (take (length sent - 1) rest))))"
proof -
  obtain w where w: "statsFetcher_loop env un a b c None None replies = (Some w, sent)"
    using assms(1) by (auto simp: statsFetcher_def split: prod.splits option.splits walk.splits)
  show ?thesis
  proof (cases w)
    case (EarlyReturn r')
    with w assms have "r' = r" by (simp add: statsFetcher_def)
    with loop_early_has_errors w EarlyReturn assms(2) show ?thesis by blast
  next
    case (Thrown e)
    with w assms show ?thesis by (simp add: statsFetcher_def)
  next
    case (LoopEnd s)
    with w assms have "r = override_stats s" by (simp add: statsFetcher_def)
    with loop_end_None w LoopEnd show ?thesis by blast
  qed
qed

lemma override_push_user:
  assumes "user res = Some u"
  shows "user (override_stats (push_nodes res xs)) =
     Some (u\<lparr>pullRequests_totalCount := 46, repositoriesContributedTo_totalCount := 15,
             repositories := (repositories u)\<lparr>nodes :=
               map (\<lambda>node. node\<lparr>stargazers_totalCount := min (stargazers_totalCount node) 2\<rparr>)
                 (nodes (repositories u) @ xs)\<rparr>\<rparr>)"
  using assms by (simp add: override_stats_def push_nodes_def)

section \<open>Claims about the paginated walk\<close>

text \<open>
  C6. The walk issues a request after page \<open>i\<close> only if the flag is \<^verbatim>\<open>"true"\<close>, the page is
  free of errors, every repository on it has a positive star count and the API reports a
  next page. Hence a page with one repository without stars is the last page requested,
  whatever replies would follow.
\<close>

theorem walk_halts_at_zero_star_page:
  "(\<forall>i. Suc i < length (snd (statsFetcher env replies username imp idisc idans))
        \<longrightarrow> i < length replies \<and> env = Some ''true'' \<and> errors (replies ! i) = None
            \<and> (\<exists>u. user (replies ! i) = Some u
                  \<and> (\<forall>node \<in> set (nodes (repositories u)). 0 < stargazers_totalCount node)
                  \<and> hasNextPage (pageInfo (repositories u))))
   \<and> (\<forall>i node. i < length (snd (statsFetcher env replies username imp idisc idans))
        \<longrightarrow> i < length replies \<longrightarrow> node \<in> set (page_nodes (replies ! i))
        \<longrightarrow> stargazers_totalCount node = 0
        \<longrightarrow> length (snd (statsFetcher env replies username imp idisc idans)) = Suc i)"
proof -
  let ?sent = "snd (statsFetcher env replies username imp idisc idans)"
  have step: "i < length replies \<and> continues env (replies ! i)" if "Suc i < length ?sent" for i
    using that loop_continues by (simp add: statsFetcher_sent)
  have first: "i < length replies \<and> env = Some ''true'' \<and> errors (replies ! i) = None
            \<and> (\<exists>u. user (replies ! i) = Some u
                  \<and> (\<forall>node \<in> set (nodes (repositories u)). 0 < stargazers_totalCount node)
                  \<and> hasNextPage (pageInfo (repositories u)))"
    if "Suc i < length ?sent" for i
    using step [OF that] by (auto simp: continues_def list_all_iff split: option.splits)
  have second: "length ?sent = Suc i"
    if "i < length ?sent" and "node \<in> set (page_nodes (replies ! i))"
      and "stargazers_totalCount node = 0" for i node
  proof (rule ccontr)
    assume "length ?sent \<noteq> Suc i"
    with that(1) have "Suc i < length ?sent" by simp
    from first [OF this] obtain u where "user (replies ! i) = Some u"
      and "\<forall>node \<in> set (nodes (repositories u)). 0 < stargazers_totalCount node"
      by blast
    with that(2,3) show False
      by (fastforce simp: page_nodes_def)
  qed
  show ?thesis using first second by blast
qed

theorem walk_halts_at_zero_star_page_witness:
  "snd (statsFetcher (Some ''true'') [starred_page, unstarred_page, last_page]
          (Some ''octocat'') False False False)
     = [stats_request (Some ''octocat'') None, stats_request (Some ''octocat'') (Some ''c1'')]
   \<and> \<lparr>repo_name = ''knife'', stargazers_totalCount = 0\<rparr> \<in> set (page_nodes unstarred_page)
   \<and> continues (Some ''true'') starred_page"
proof -
  let ?replies = "[starred_page, unstarred_page, last_page]"
  let ?sent = "snd (statsFetcher (Some ''true'') ?replies (Some ''octocat'') False False False)"
  have knife: "\<lparr>repo_name = ''knife'', stargazers_totalCount = 0\<rparr> \<in> set (page_nodes unstarred_page)"
    by (simp add: page_nodes_def unstarred_page_def)
  have go: "continues (Some ''true'') starred_page"
    by (simp add: continues_def starred_page_def)
  have stop: "\<not> continues (Some ''true'') unstarred_page"
    by (simp add: continues_def unstarred_page_def)
  have sent: "?sent = [stats_request (Some ''octocat'') None,
                       stats_request (Some ''octocat'') (Some ''c1'')]"
    using go stop
    by (simp add: statsFetcher_sent loop_Cons_sent stats_request_def starred_page_def)
  have "length ?sent = Suc 1"
    using walk_halts_at_zero_star_page [of "Some ''true''" ?replies "Some ''octocat''"
        False False False] knife sent
    by simp
  with sent knife go show ?thesis by simp
qed

text \<open>
  C7. When \<^verbatim>\<open>FETCH_MULTI_PAGE_STARS\<close> is not the string \<^verbatim>\<open>"true"\<close>, \<^verbatim>\<open>statsFetcher\<close>
  issues exactly one request, the statistics query with no cursor, and a first reply ends
  the walk whatever it says about a next page and whatever replies would follow.
\<close>

theorem one_request_when_flag_disabled:
  assumes "env \<noteq> Some ''true''"
  shows "snd (statsFetcher env replies username imp idisc idans)
           = [\<lparr>req_query = GRAPHQL_STATS_QUERY,
               req_variables = \<lparr>login = username, first = 100, after = None,
                 includeMergedPullRequests = imp, includeDiscussions = idisc,
                 includeDiscussionsAnswers = idans\<rparr>\<rparr>]
       \<and> (\<forall>res rest. replies = res # rest
             \<longrightarrow> fst (statsFetcher env replies username imp idisc idans) \<noteq> None
                 \<and> statsFetcher env replies username imp idisc idans
                     = statsFetcher env [res] username imp idisc idans)"
proof -
  have stop: "\<not> continues env res" for res
    using assms by (simp add: continues_def)
  have "snd (statsFetcher env replies username imp idisc idans)
          = [fetcher \<lparr>login = username, first = 100, after = None,
                includeMergedPullRequests = imp, includeDiscussions = idisc,
                includeDiscussionsAnswers = idans\<rparr>]"
    using assms by (simp add: statsFetcher_sent loop_flag_off)
  moreover have "fst (statsFetcher env (res # rest) username imp idisc idans) \<noteq> None
      \<and> statsFetcher env (res # rest) username imp idisc idans
          = statsFetcher env [res] username imp idisc idans" for res rest
    by (simp add: statsFetcher_def loop_stop [OF stop] split: option.splits)
  ultimately show ?thesis
    by (simp add: fetcher_def truthy_def)
qed

theorem one_request_when_flag_disabled_witness:
  "None \<noteq> Some ''true'' \<and> Some ''false'' \<noteq> Some ''true''
   \<and> hasNextPage (pageInfo (repositories (the (user starred_page))))
   \<and> length (snd (statsFetcher None [starred_page, last_page] (Some ''octocat'')
                     False False False)) = 1
   \<and> fst (statsFetcher (Some ''false'') [starred_page, last_page] (Some ''octocat'')
            False False False) \<noteq> None"
proof -
  have a: "(None :: string option) \<noteq> Some ''true''" and b: "Some ''false'' \<noteq> Some ''true''"
    by simp_all
  have more: "hasNextPage (pageInfo (repositories (the (user starred_page))))"
    by (simp add: starred_page_def)
  have one: "length (snd (statsFetcher None [starred_page, last_page] (Some ''octocat'')
                     False False False)) = 1"
    using one_request_when_flag_disabled [OF a, of "[starred_page, last_page]" "Some ''octocat''"
        False False False, THEN conjunct1]
    by simp
  have ends: "fst (statsFetcher (Some ''false'') [starred_page, last_page] (Some ''octocat'')
            False False False) \<noteq> None"
    using one_request_when_flag_disabled [OF b, of "[starred_page, last_page]" "Some ''octocat''"
        False False False]
    by blast
  show ?thesis using a b more one ends by blast
qed

section \<open>What \<^verbatim>\<open>statsFetcher\<close> and \<^verbatim>\<open>fetchStats\<close> return\<close>

lemma loop_sent_nonempty: "snd (statsFetcher_loop env un a b c stats cur replies) \<noteq> []"
  by (cases replies) (simp_all add: loop_Cons_sent)

lemma statsFetcher_error_reply:
  assumes "errors res \<noteq> None"
  shows "statsFetcher env (res # rest) un a b c =
           (Some (Inr res),
            [fetcher \<lparr>login = un, first = 100, after = None, includeMergedPullRequests = a,
               includeDiscussions = b, includeDiscussionsAnswers = c\<rparr>])"
proof -
  have "\<not> continues env res" using assms by (simp add: continues_def)
  from loop_stop [OF this] assms show ?thesis by (simp add: statsFetcher_def)
qed

lemma statsFetcher_merged:
  assumes "statsFetcher env replies un a b c = (Some (Inr r), sent)" and "errors r = None"
  shows "\<exists>res rest u. replies = res # rest \<and> errors res = None \<and> user res = Some u
     \<and> user r = Some (u\<lparr>pullRequests_totalCount := 46,
                          repositoriesContributedTo_totalCount := 15,
                          repositories := (repositories u)\<lparr>nodes :=
                            map (\<lambda>node. node\<lparr>stargazers_totalCount :=
                                   min (stargazers_totalCount node) 2\<rparr>)
                              (concat (map page_nodes (take (length sent) replies)))\<rparr>\<rparr>)"
proof -
  from statsFetcher_success [OF assms] obtain res rest u where
    r: "replies = res # rest" "errors res = None" "user res = Some u"
       "r = override_stats (push_nodes res (concat (map page_nodes (take (length sent - 1) rest))))"
    by blast
  have "sent = snd (statsFetcher env replies un a b c)" using assms(1) by simp
  then have "sent \<noteq> []" by (simp add: statsFetcher_sent loop_sent_nonempty)
  then obtain k where k: "length sent = Suc k" by (cases sent) simp_all
  have "concat (map page_nodes (take (length sent) replies))
          = nodes (repositories u) @ concat (map page_nodes (take (length sent - 1) rest))"
    using r(1,3) k by (simp add: page_nodes_def)
  with r override_push_user [OF r(3)] show ?thesis by simp
qed

lemma fetchStats_returns_predefined:
  assumes "fetchStats env wrap replies username iac excl imp idisc idans = (Some (Inr r), sent)"
  shows "\<exists>res rest u. replies = res # rest \<and> user res = Some u
           \<and> r = predefined_stats (js_or (u_name u) (u_login u))"
proof -
  from assms have t: "truthy username"
    by (auto simp: fetchStats_def split: if_splits)
  obtain o1 s1 where w: "statsFetcher env replies username imp idisc idans = (o1, s1)"
    by (cases "statsFetcher env replies username imp idisc idans")
  with assms t obtain r0 u0 where o1: "o1 = Some (Inr r0)" and e: "errors r0 = None"
    and u0: "user r0 = Some u0" and r: "r = predefined_stats (js_or (u_name u0) (u_login u0))"
    by (auto simp: fetchStats_def Let_def predefined_stats_def
        split: option.splits sum.splits)
  from statsFetcher_merged [OF w [unfolded o1] e] u0
  obtain res rest u where "replies = res # rest" "user res = Some u"
    "u_name u0 = u_name u" "u_login u0 = u_login u"
    by auto
  with r show ?thesis by auto
qed

lemma fetchStats_after_walk:
  assumes "truthy username"
    and "statsFetcher env replies username imp idisc idans = (Some (Inr r0), sent)"
    and "errors r0 = None" and "user r0 = Some u0"
  shows "fetchStats env wrap replies username iac excl imp idisc idans
           = (Some (Inr (predefined_stats (js_or (u_name u0) (u_login u0)))), sent)"
  using assms by (simp add: fetchStats_def Let_def predefined_stats_def)

lemma fetchStats_single_page:
  assumes "truthy username" and "errors res = None" and "user res = Some u"
    and "\<not> continues env res"
  shows "fetchStats env wrap (res # rest) username iac excl imp idisc idans
           = (Some (Inr (predefined_stats (js_or (u_name u) (u_login u)))),
              [fetcher \<lparr>login = username, first = 100, after = None,
                 includeMergedPullRequests = imp, includeDiscussions = idisc,
                 includeDiscussionsAnswers = idans\<rparr>])"
proof -
  let ?req = "fetcher \<lparr>login = username, first = 100, after = None,
                 includeMergedPullRequests = imp, includeDiscussions = idisc,
                 includeDiscussionsAnswers = idans\<rparr>"
  have "statsFetcher env (res # rest) username imp idisc idans
          = (Some (Inr (override_stats res)), [?req])"
    using assms(2,3) loop_stop [OF assms(4)] by (simp add: statsFetcher_def)
  moreover have "errors (override_stats res) = None"
    using assms(2) by (simp add: override_stats_errors)
  moreover have "\<exists>u0. user (override_stats res) = Some u0 \<and> u_name u0 = u_name u
      \<and> u_login u0 = u_login u"
    using assms(3) by (simp add: override_stats_def)
  ultimately show ?thesis
    using fetchStats_after_walk [OF assms(1)] by metis
qed

text \<open>
  C10. When the walk returns a response without errors, that response has a user whose
  \<^verbatim>\<open>pullRequests.totalCount\<close> is 46 and whose \<^verbatim>\<open>repositoriesContributedTo.totalCount\<close> is
  15, and its repository nodes are those of the pages fetched, in order, each with its star
  count replaced by the minimum of that count and 2; so every count is at most 2.
\<close>

theorem statsFetcher_overrides:
  assumes "statsFetcher env replies username imp idisc idans = (Some (Inr r), sent)"
    and "errors r = None"
  shows "\<exists>u. user r = Some u
           \<and> pullRequests_totalCount u = 46
           \<and> repositoriesContributedTo_totalCount u = 15
           \<and> (\<forall>node \<in> set (nodes (repositories u)). stargazers_totalCount node \<le> 2)
           \<and> nodes (repositories u)
               = map (\<lambda>node. node\<lparr>stargazers_totalCount := min (stargazers_totalCount node) 2\<rparr>)
                   (concat (map page_nodes (take (length sent) replies)))"
proof -
  from statsFetcher_merged [OF assms] obtain u where "user r = Some u"
    and "pullRequests_totalCount u = 46" and "repositoriesContributedTo_totalCount u = 15"
    and n: "nodes (repositories u)
               = map (\<lambda>node. node\<lparr>stargazers_totalCount := min (stargazers_totalCount node) 2\<rparr>)
                   (concat (map page_nodes (take (length sent) replies)))"
    by auto
  moreover have "\<forall>node \<in> set (nodes (repositories u)). stargazers_totalCount node \<le> 2"
    unfolding n by auto
  ultimately show ?thesis by blast
qed

theorem statsFetcher_overrides_witness:
  "statsFetcher (Some ''true'') [starred_page, unstarred_page, last_page] (Some ''octocat'')
       False False False
     = (Some (Inr merged_pages),
        [stats_request (Some ''octocat'') None, stats_request (Some ''octocat'') (Some ''c1'')])
   \<and> errors merged_pages = None
   \<and> map stargazers_totalCount (page_nodes merged_pages) = [2, 1, 2, 0]
   \<and> map stargazers_totalCount (page_nodes starred_page @ page_nodes unstarred_page) = [5, 1, 3, 0]"
proof -
  have go: "continues (Some ''true'') starred_page"
    by (simp add: continues_def starred_page_def)
  have stop: "\<not> continues (Some ''true'') unstarred_page"
    by (simp add: continues_def unstarred_page_def)
  have run: "statsFetcher (Some ''true'') [starred_page, unstarred_page, last_page]
       (Some ''octocat'') False False False
     = (Some (Inr merged_pages),
        [stats_request (Some ''octocat'') None, stats_request (Some ''octocat'') (Some ''c1'')])"
    by (simp add: statsFetcher_def loop_go [OF go] loop_stop [OF stop] stats_request_def)
       (simp add: starred_page_def unstarred_page_def merged_pages_def page_nodes_def
          push_nodes_def override_stats_def)
  have e: "errors merged_pages = None" by (simp add: merged_pages_def)
  have "map stargazers_totalCount (page_nodes merged_pages) = [2, 1, 2, 0]"
    using statsFetcher_overrides [OF run e]
    by (simp add: merged_pages_def page_nodes_def starred_page_def unstarred_page_def)
  moreover have "map stargazers_totalCount (page_nodes starred_page @ page_nodes unstarred_page)
      = [5, 1, 3, 0]"
    by (simp add: page_nodes_def starred_page_def unstarred_page_def)
  ultimately show ?thesis using run e by simp
qed

text \<open>
  C4. A record returned by \<^verbatim>\<open>fetchStats\<close> has totalPRs 46, totalPRsMerged 40,
  mergedPRsPercentage 87, totalReviews 15, totalCommits 2100, totalIssues 0, totalStars 10,
  contributedTo 15 and rank C+ with percentile 45 (and both discussion counts 0); only its
  name comes from the payload: the \<^verbatim>\<open>name\<close> of the first reply's user, or the
  \<^verbatim>\<open>login\<close> when the name is missing or empty. Whenever the walk returns a response
  without errors for a truthy username, \<^verbatim>\<open>fetchStats\<close> returns such a record.
\<close>

theorem fetchStats_constant_record:
  "(\<forall>r sent. fetchStats env wrap replies username iac excl imp idisc idans = (Some (Inr r), sent)
       \<longrightarrow> (\<exists>res rest u. replies = res # rest \<and> user res = Some u
             \<and> r = \<lparr>stat_name = js_or (u_name u) (u_login u), totalPRs = 46,
                    totalPRsMerged = 40, mergedPRsPercentage = 87, totalReviews = 15,
                    totalCommits = 2100, totalIssues = 0, totalStars = 10,
                    totalDiscussionsStarted = 0, totalDiscussionsAnswered = 0,
                    contributedTo = 15, rank = \<lparr>level = ''C+'', percentile = 45\<rparr>\<rparr>))
   \<and> (\<forall>r0 sent. truthy username
       \<longrightarrow> statsFetcher env replies username imp idisc idans = (Some (Inr r0), sent)
       \<longrightarrow> errors r0 = None
       \<longrightarrow> (\<exists>r. fetchStats env wrap replies username iac excl imp idisc idans
                  = (Some (Inr r), sent)))"
proof -
  have a: "\<exists>res rest u. replies = res # rest \<and> user res = Some u
             \<and> r = \<lparr>stat_name = js_or (u_name u) (u_login u), totalPRs = 46,
                    totalPRsMerged = 40, mergedPRsPercentage = 87, totalReviews = 15,
                    totalCommits = 2100, totalIssues = 0, totalStars = 10,
                    totalDiscussionsStarted = 0, totalDiscussionsAnswered = 0,
                    contributedTo = 15, rank = \<lparr>level = ''C+'', percentile = 45\<rparr>\<rparr>"
    if "fetchStats env wrap replies username iac excl imp idisc idans = (Some (Inr r), sent)"
    for r sent
    using fetchStats_returns_predefined [OF that] by (simp add: predefined_stats_def)
  have b: "\<exists>r. fetchStats env wrap replies username iac excl imp idisc idans
                  = (Some (Inr r), sent)"
    if "truthy username"
      and "statsFetcher env replies username imp idisc idans = (Some (Inr r0), sent)"
      and "errors r0 = None" for r0 sent
  proof -
    from statsFetcher_merged [OF that(2,3)] obtain u0 where "user r0 = Some u0" by blast
    from fetchStats_after_walk [OF that this] show ?thesis by blast
  qed
  show ?thesis using a b by blast
qed

theorem fetchStats_constant_record_witness:
  "fetchStats (Some ''true'') no_wrap [starred_page, unstarred_page, last_page] (Some ''octocat'')
       False [] False False False
     = (Some (Inr (predefined_stats ''The Octocat'')),
        [stats_request (Some ''octocat'') None, stats_request (Some ''octocat'') (Some ''c1'')])
   \<and> fetchStats None no_wrap [newcomer_page] (Some ''newcomer'') True [''x''] True False False
     = (Some (Inr (predefined_stats ''newcomer'')),
        [fetcher \<lparr>login = Some ''newcomer'', first = 100, after = None,
           includeMergedPullRequests = True, includeDiscussions = False,
           includeDiscussionsAnswers = False\<rparr>])
   \<and> totalPRs (predefined_stats ''newcomer'') = 46"
proof -
  have t: "truthy (Some ''octocat'')" and t': "truthy (Some ''newcomer'')"
    by (simp_all add: truthy_def)
  have go: "continues (Some ''true'') starred_page"
    by (simp add: continues_def starred_page_def)
  have stop: "\<not> continues (Some ''true'') unstarred_page"
    by (simp add: continues_def unstarred_page_def)
  have walk: "statsFetcher (Some ''true'') [starred_page, unstarred_page, last_page]
       (Some ''octocat'') False False False
     = (Some (Inr merged_pages),
        [stats_request (Some ''octocat'') None, stats_request (Some ''octocat'') (Some ''c1'')])"
    by (simp add: statsFetcher_def loop_go [OF go] loop_stop [OF stop] stats_request_def)
       (simp add: starred_page_def unstarred_page_def merged_pages_def page_nodes_def
          push_nodes_def override_stats_def)
  have e: "errors merged_pages = None" by (simp add: merged_pages_def)
  from fetchStats_constant_record [of "Some ''true''" no_wrap
      "[starred_page, unstarred_page, last_page]" "Some ''octocat''" False "[]" False False False]
    t walk e
  obtain r where run: "fetchStats (Some ''true'') no_wrap [starred_page, unstarred_page, last_page]
      (Some ''octocat'') False [] False False False
     = (Some (Inr r),
        [stats_request (Some ''octocat'') None, stats_request (Some ''octocat'') (Some ''c1'')])"
    by blast
  from fetchStats_constant_record [of "Some ''true''" no_wrap
      "[starred_page, unstarred_page, last_page]" "Some ''octocat''" False "[]" False False False]
    run
  have "r = predefined_stats ''The Octocat''"
    by (auto simp: predefined_stats_def starred_page_def js_or_def)
  with run have first: "fetchStats (Some ''true'') no_wrap [starred_page, unstarred_page, last_page]
      (Some ''octocat'') False [] False False False
     = (Some (Inr (predefined_stats ''The Octocat'')),
        [stats_request (Some ''octocat'') None, stats_request (Some ''octocat'') (Some ''c1'')])"
    by simp
  have "\<not> continues None newcomer_page" by (simp add: continues_def)
  from fetchStats_single_page [OF t' _ _ this, of newcomer no_wrap "[]" True "[''x'']" True False False]
  have second: "fetchStats None no_wrap [newcomer_page] (Some ''newcomer'') True [''x''] True False False
     = (Some (Inr (predefined_stats ''newcomer'')),
        [fetcher \<lparr>login = Some ''newcomer'', first = 100, after = None,
           includeMergedPullRequests = True, includeDiscussions = False,
           includeDiscussionsAnswers = False\<rparr>])"
    by (simp add: newcomer_page_def newcomer_def js_or_def)
  show ?thesis using first second by (simp add: predefined_stats_def)
qed

section \<open>Upstream errors\<close>

lemma upstream_error_not_found:
  assumes "err_type e = Some ''NOT_FOUND''"
  shows "upstream_error wrap generic status (e # es)
           = CustomError (Some (case err_message e of
                                  None \<Rightarrow> ''Could not fetch user.''
                                | Some m \<Rightarrow> if m \<noteq> [] then m else ''Could not fetch user.''))
               USER_NOT_FOUND"
  using assms by (simp add: upstream_error_def first_elem_def js_or_def split: option.splits)

text \<open>
  C8. When the response carries an error array whose first element has type
  \<^verbatim>\<open>"NOT_FOUND"\<close>, \<^verbatim>\<open>fetchStats\<close> and the fetching \<^verbatim>\<open>fetchTopLanguages\<close> throw a
  \<^verbatim>\<open>CustomError\<close> of type \<^verbatim>\<open>USER_NOT_FOUND\<close> whose message is the upstream message when
  there is a non-empty one and \<^verbatim>\<open>"Could not fetch user."\<close> otherwise. The rest of the array
  has no influence and nothing is returned. For \<^verbatim>\<open>fetchStats\<close> this holds for the first
  reply and for whatever response with errors the walk hands back.
\<close>

theorem not_found_throws_user_not_found:
  assumes "truthy username" and "err_type e = Some ''NOT_FOUND''"
    and "errors sres = Some (e # es)" and "errors lres = Some (e # es')"
  shows "fetchStats env wrap (sres # srest) username iac excl imp idisc idans
           = (Some (Inl (CustomError
                 (Some (case err_message e of
                          None \<Rightarrow> ''Could not fetch user.''
                        | Some m \<Rightarrow> if m \<noteq> [] then m else ''Could not fetch user.''))
                 USER_NOT_FOUND)),
              [fetcher \<lparr>login = username, first = 100, after = None,
                 includeMergedPullRequests = imp, includeDiscussions = idisc,
                 includeDiscussionsAnswers = idans\<rparr>])
       \<and> fetchTopLanguages_part0_fetching pow wrap (lres # lrest) username excl sw cw
           = (Some (Inl (CustomError
                 (Some (case err_message e of
                          None \<Rightarrow> ''Could not fetch user.''
                        | Some m \<Rightarrow> if m \<noteq> [] then m else ''Could not fetch user.''))
                 USER_NOT_FOUND)),
              [username])
       \<and> (\<forall>replies sent.
             statsFetcher env replies username imp idisc idans = (Some (Inr sres), sent)
             \<longrightarrow> fetchStats env wrap replies username iac excl imp idisc idans
                   = (Some (Inl (CustomError
                         (Some (case err_message e of
                                  None \<Rightarrow> ''Could not fetch user.''
                                | Some m \<Rightarrow> if m \<noteq> [] then m else ''Could not fetch user.''))
                         USER_NOT_FOUND)),
                      sent))"
proof -
  have later: "fetchStats env wrap replies username iac excl imp idisc idans
      = (Some (Inl (upstream_error wrap
           ''Something went wrong while trying to retrieve the stats data using the GraphQL API.''
           (statusText sres) (e # es))), sent)"
    if "statsFetcher env replies username imp idisc idans = (Some (Inr sres), sent)"
    for replies sent
    using that assms(1,3) by (simp add: fetchStats_def)
  have "errors sres \<noteq> None" using assms(3) by simp
  from later [OF statsFetcher_error_reply [OF this]]
  have "fetchStats env wrap (sres # srest) username iac excl imp idisc idans
      = (Some (Inl (upstream_error wrap
           ''Something went wrong while trying to retrieve the stats data using the GraphQL API.''
           (statusText sres) (e # es))),
         [fetcher \<lparr>login = username, first = 100, after = None,
            includeMergedPullRequests = imp, includeDiscussions = idisc,
            includeDiscussionsAnswers = idans\<rparr>])" .
  moreover have "fetchTopLanguages_part0_fetching pow wrap (lres # lrest) username excl sw cw
      = (Some (Inl (upstream_error wrap
           ''Something went wrong while trying to retrieve the language data using the GraphQL API.''
           (statusText lres) (e # es'))), [username])"
    using assms(1,4) by (simp add: fetchTopLanguages_part0_fetching_def)
  ultimately show ?thesis
    using later by (simp add: upstream_error_not_found [OF assms(2)])
qed

theorem not_found_throws_user_not_found_witness:
  "truthy (Some ''nobody'')
   \<and> fetchStats None no_wrap [not_found_stats_reply, starred_page] (Some ''nobody'')
         False [] False False False
       = (Some (Inl (CustomError
             (Some ''Could not resolve to a User with the login of nobody.'') USER_NOT_FOUND)),
          [stats_request (Some ''nobody'') None])
   \<and> fetchTopLanguages_part0_fetching pow_0_1 no_wrap [not_found_lang_reply]
         (Some ''nobody'') [] (js_number 1) (js_number 0)
       = (Some (Inl (CustomError
             (Some ''Could not resolve to a User with the login of nobody.'') USER_NOT_FOUND)),
          [Some ''nobody''])"
proof -
  have t: "truthy (Some ''nobody'')" by (simp add: truthy_def)
  have ty: "err_type (hd not_found_errors) = Some ''NOT_FOUND''"
    by (simp add: not_found_errors_def)
  have s: "errors not_found_stats_reply = Some (hd not_found_errors # tl not_found_errors)"
    by (simp add: not_found_stats_reply_def not_found_errors_def)
  have l: "errors not_found_lang_reply = Some (hd not_found_errors # tl not_found_errors)"
    by (simp add: not_found_lang_reply_def not_found_errors_def)
  show ?thesis
    using t not_found_throws_user_not_found [OF t ty s l, of None no_wrap "[starred_page]"
        False "[]" False False False pow_0_1 "[]" "js_number 1" "js_number 0", THEN conjunct1]
      not_found_throws_user_not_found [OF t ty s l, of None no_wrap "[starred_page]"
        False "[]" False False False pow_0_1 "[]" "js_number 1" "js_number 0", THEN conjunct2, THEN conjunct1]
    by (simp add: not_found_errors_def stats_request_def)
qed

section \<open>Derived statistics\<close>

text \<open>
  C3, as the code has it. \<^verbatim>\<open>fetchStats\<close> sets \<^verbatim>\<open>totalStars\<close> to the literal 10: the star
  counts of the fetched repositories do not enter, and \<open>exclude_repo\<close> has no effect on the
  outcome at all.
\<close>

theorem totalStars_is_ten:
  "fetchStats env wrap replies username iac excl1 imp idisc idans
     = fetchStats env wrap replies username iac excl2 imp idisc idans
   \<and> (\<forall>r sent. fetchStats env wrap replies username iac excl1 imp idisc idans
                  = (Some (Inr r), sent) \<longrightarrow> totalStars r = 10)"
proof -
  have "totalStars r = 10"
    if "fetchStats env wrap replies username iac excl1 imp idisc idans = (Some (Inr r), sent)"
    for r sent
    using fetchStats_returns_predefined [OF that] by (auto simp: predefined_stats_def)
  moreover have "fetchStats env wrap replies username iac excl1 imp idisc idans
     = fetchStats env wrap replies username iac excl2 imp idisc idans"
    by (simp add: fetchStats_def)
  ultimately show ?thesis by blast
qed

theorem totalStars_is_ten_witness:
  "map_option totalStars
     (returned (fetchStats None no_wrap [starred_page] (Some ''octocat'') False [''world'']
                  False False False)) = Some 10
   \<and> returned (fetchStats None no_wrap [starred_page] (Some ''octocat'') False [''world'']
                  False False False)
     = returned (fetchStats None no_wrap [starred_page] (Some ''octocat'') False []
                  False False False)"
proof -
  have t: "truthy (Some ''octocat'')" by (simp add: truthy_def)
  have stop: "\<not> continues None starred_page" by (simp add: continues_def)
  have run: "fetchStats None no_wrap [starred_page] (Some ''octocat'') False [''world'']
      False False False
     = (Some (Inr (predefined_stats ''The Octocat'')),
        [fetcher \<lparr>login = Some ''octocat'', first = 100, after = None,
           includeMergedPullRequests = False, includeDiscussions = False,
           includeDiscussionsAnswers = False\<rparr>])"
    using fetchStats_single_page [OF t _ _ stop, of _ no_wrap "[]" False "[''world'']"
        False False False]
    by (simp add: starred_page_def js_or_def)
  show ?thesis
    using run totalStars_is_ten [of None no_wrap "[starred_page]" "Some ''octocat''" False
        "[''world'']" False False False "[]"]
    by (simp add: returned_def)
qed

text \<open>
  The statement of C3 fails on the code: for one page with the repositories \<^verbatim>\<open>hello\<close>
  (5 stars) and \<^verbatim>\<open>world\<close> (1 star) and \<^verbatim>\<open>world\<close> excluded, the filtered sum is 5 over the
  fetched nodes and 2 over the nodes as \<^verbatim>\<open>statsFetcher\<close> hands them on, and
  \<^verbatim>\<open>totalStars\<close> is 10.
\<close>

theorem totalStars_not_filtered_sum:
  "map_option totalStars
     (returned (fetchStats None no_wrap [starred_page] (Some ''octocat'') False [''world'']
                  False False False)) = Some 10
   \<and> filtered_star_sum [''world''] (page_nodes starred_page) = 5
   \<and> map_option (\<lambda>res. filtered_star_sum [''world''] (page_nodes res))
       (returned (statsFetcher None [starred_page] (Some ''octocat'') False False False)) = Some 2
   \<and> map_option totalStars
       (returned (fetchStats None no_wrap [starred_page] (Some ''octocat'') False [''world'']
                    False False False))
     \<noteq> Some (filtered_star_sum [''world''] (page_nodes starred_page))"
proof -
  have t: "truthy (Some ''octocat'')" by (simp add: truthy_def)
  have stop: "\<not> continues None starred_page" by (simp add: continues_def)
  have run: "fetchStats None no_wrap [starred_page] (Some ''octocat'') False [''world'']
      False False False
     = (Some (Inr (predefined_stats ''The Octocat'')),
        [fetcher \<lparr>login = Some ''octocat'', first = 100, after = None,
           includeMergedPullRequests = False, includeDiscussions = False,
           includeDiscussionsAnswers = False\<rparr>])"
    using fetchStats_single_page [OF t _ _ stop, of _ no_wrap "[]" False "[''world'']"
        False False False]
    by (simp add: starred_page_def js_or_def)
  have raw: "filtered_star_sum [''world''] (page_nodes starred_page) = 5"
    by (simp add: filtered_star_sum_def page_nodes_def starred_page_def)
  have clamped: "map_option (\<lambda>res. filtered_star_sum [''world''] (page_nodes res))
       (returned (statsFetcher None [starred_page] (Some ''octocat'') False False False)) = Some 2"
    by (simp add: statsFetcher_def loop_stop [OF stop] returned_def)
       (simp add: starred_page_def override_stats_def page_nodes_def filtered_star_sum_def)
  show ?thesis
    using run raw clamped by (simp add: returned_def predefined_stats_def)
qed

text \<open>
  C5, as the code has it. A record returned by \<^verbatim>\<open>fetchStats\<close> has totalPRs 46,
  totalPRsMerged 40 and mergedPRsPercentage 87, which is the rounded share of those two
  literals; the pull-request counts of the payload do not enter, and the returned totalPRs
  is never 0.
\<close>

theorem mergedPRsPercentage_is_87:
  assumes "fetchStats env wrap replies username iac excl imp idisc idans = (Some (Inr r), sent)"
  shows "totalPRs r = 46 \<and> totalPRsMerged r = 40 \<and> mergedPRsPercentage r = 87
       \<and> int (mergedPRsPercentage r) = js_round (of_nat (totalPRsMerged r) / of_nat (totalPRs r) * 100)
       \<and> int (mergedPRsPercentage r) = mergedPRsPercentage_spec (totalPRsMerged r) (totalPRs r)
       \<and> totalPRs r \<noteq> 0"
proof -
  from fetchStats_returns_predefined [OF assms] obtain n where "r = predefined_stats n"
    by blast
  then show ?thesis
    by (simp add: predefined_stats_def mergedPRsPercentage_spec_def js_round_def floor_eq_iff)
qed

theorem mergedPRsPercentage_is_87_witness:
  "fetchStats None no_wrap [newcomer_page] (Some ''newcomer'') False [] True False False
     = (Some (Inr (predefined_stats ''newcomer'')),
        [fetcher \<lparr>login = Some ''newcomer'', first = 100, after = None,
           includeMergedPullRequests = True, includeDiscussions = False,
           includeDiscussionsAnswers = False\<rparr>])
   \<and> mergedPRsPercentage (predefined_stats ''newcomer'') = 87
   \<and> js_round (40 / 46 * 100) = 87"
proof -
  have t: "truthy (Some ''newcomer'')" by (simp add: truthy_def)
  have stop: "\<not> continues None newcomer_page" by (simp add: continues_def)
  have run: "fetchStats None no_wrap [newcomer_page] (Some ''newcomer'') False [] True False False
     = (Some (Inr (predefined_stats ''newcomer'')),
        [fetcher \<lparr>login = Some ''newcomer'', first = 100, after = None,
           includeMergedPullRequests = True, includeDiscussions = False,
           includeDiscussionsAnswers = False\<rparr>])"
    using fetchStats_single_page [OF t _ _ stop, of _ no_wrap "[]" False "[]" True False False]
    by (simp add: newcomer_page_def newcomer_def js_or_def)
  from mergedPRsPercentage_is_87 [OF run]
  have "mergedPRsPercentage (predefined_stats ''newcomer'') = 87"
    and "js_round (40 / 46 * 100) = 87"
    by (simp_all add: predefined_stats_def)
  with run show ?thesis by simp
qed

text \<open>
  The statement of C5 fails on the code: for a payload that reports no pull requests (and
  none merged), for which the guarded formula gives 0, \<^verbatim>\<open>mergedPRsPercentage\<close> is 87.
\<close>

theorem mergedPRsPercentage_not_computed:
  "pullRequests_totalCount newcomer = 0
   \<and> mergedPullRequests_totalCount newcomer = Some 0
   \<and> mergedPRsPercentage_spec 0 0 = 0
   \<and> map_option mergedPRsPercentage
       (returned (fetchStats None no_wrap [newcomer_page] (Some ''newcomer'') False [] True
                    False False)) = Some 87
   \<and> map_option (\<lambda>r. int (mergedPRsPercentage r))
       (returned (fetchStats None no_wrap [newcomer_page] (Some ''newcomer'') False [] True
                    False False))
     \<noteq> Some (mergedPRsPercentage_spec 0 (pullRequests_totalCount newcomer))"
proof -
  have t: "truthy (Some ''newcomer'')" by (simp add: truthy_def)
  have stop: "\<not> continues None newcomer_page" by (simp add: continues_def)
  have run: "fetchStats None no_wrap [newcomer_page] (Some ''newcomer'') False [] True False False
     = (Some (Inr (predefined_stats ''newcomer'')),
        [fetcher \<lparr>login = Some ''newcomer'', first = 100, after = None,
           includeMergedPullRequests = True, includeDiscussions = False,
           includeDiscussionsAnswers = False\<rparr>])"
    using fetchStats_single_page [OF t _ _ stop, of _ no_wrap "[]" False "[]" True False False]
    by (simp add: newcomer_page_def newcomer_def js_or_def)
  show ?thesis
    using run
    by (simp add: returned_def predefined_stats_def mergedPRsPercentage_spec_def newcomer_def)
qed


end
